theory Spec2Isabelle
  imports Main
begin

section \<open>AT-commander: a shallow embedding of atcommander.c\<close>

text \<open>
  The C file drives a serial AT-command device through five callbacks held in the
  session configuration (write a byte, poll a byte, delay, set the UART baud rate, log).
  The embedding keeps the structure of the source:
  \<^item> the two structs are records, a \<^verbatim>\<open>const char*\<close> is \<open>char list option\<close>: \<open>None\<close> is
    \<^verbatim>\<open>NULL\<close> and \<open>Some a\<close> points at the array \<open>a\<close>, terminator included;
  \<^item> a callback is an optional function on the state \<open>'d\<close> of whatever is behind the
    transport; every call is also appended to a trace of events, so that a theorem can
    say which calls were made, in which order;
  \<^item> what C leaves undefined (a call through \<^verbatim>\<open>NULL\<close>, \<^verbatim>\<open>strlen(NULL)\<close>, a read or a write
    past the end of an array, the read of an uninitialised variable) is a value of
    type \<open>fault\<close>, returned as \<open>Inl\<close>;
  \<^item> a C \<^verbatim>\<open>int\<close> is a HOL \<open>int\<close>: the only arithmetic of the file is the increment of
    counters that stay below \<^verbatim>\<open>size\<close> or \<^verbatim>\<open>max_retries\<close>, so nothing can wrap.
  The header \<^verbatim>\<open>atcommander.h\<close> is not part of the sources at hand. The field names of
  the two structs are those the C file uses; the table \<^verbatim>\<open>VALID_BAUD_RATES\<close> and the macro
  \<^verbatim>\<open>DEFAULT_RESPONSE_DELAY_MS\<close> are parameters.
\<close>

subsection \<open>Data\<close>

datatype fault =
    NullDereference
  | NullCall
  | OutOfBounds
  | BufferOverflow
  | UninitialisedRead
  | MissingArgument
  | UnmodelledConversion

definition NUL :: char where
  "NUL = CHR 0x00"

definition CRLF :: "char list" where
  "CRLF = [CHR 0x0D, CHR 0x0A]"

text \<open>The array of a string literal: its characters and the terminator.\<close>

definition literal :: "char list \<Rightarrow> char list option" where
  "literal s = Some (s @ [NUL])"

datatype log_arg = IntArg int | StrArg "char list"

datatype event =
    Written char
  | ReadPoll int
  | Delayed int
  | BaudInit int
  | Logged "char list" "log_arg list"

record 'd world =
  device :: 'd
  trace :: "event list"

record AtCommand =
  request_format :: "char list option"
  expected_response :: "char list option"

record AtCommanderPlatform =
  response_delay_ms :: int
  baud_rate_mapper :: "(int \<Rightarrow> fault + int) option"
  enter_command_mode_command :: AtCommand
  exit_command_mode_command :: AtCommand
  set_baud_rate_command :: AtCommand
  store_settings_command :: AtCommand
  reboot_command :: AtCommand

record 'd AtCommanderConfig =
  platform :: AtCommanderPlatform
  baud_rate_initializer :: "(int \<Rightarrow> 'd \<Rightarrow> 'd) option"
  write_function :: "(char \<Rightarrow> 'd \<Rightarrow> 'd) option"
  read_function :: "('d \<Rightarrow> int \<times> 'd) option"
  delay_function :: "(int \<Rightarrow> 'd \<Rightarrow> 'd) option"
  log_function :: "(char list \<Rightarrow> log_arg list \<Rightarrow> 'd \<Rightarrow> 'd) option"
  connected :: bool
  baud :: int
  device_baud :: int

definition RETRY_DELAY_MS :: int where
  "RETRY_DELAY_MS = 50"

definition MAX_RESPONSE_LENGTH :: nat where
  "MAX_RESPONSE_LENGTH = 8"

definition MAX_RETRIES :: int where
  "MAX_RETRIES = 3"

subsection \<open>Calls through the callbacks\<close>

definition call_write :: "(char \<Rightarrow> 'd \<Rightarrow> 'd) \<Rightarrow> char \<Rightarrow> 'd world \<Rightarrow> 'd world" where
  "call_write f c w = \<lparr>device = f c (device w), trace = trace w @ [Written c]\<rparr>"

definition call_read :: "('d \<Rightarrow> int \<times> 'd) \<Rightarrow> 'd world \<Rightarrow> int \<times> 'd world" where
  "call_read f w =
     (case f (device w) of
        (byte, d) \<Rightarrow> (byte, \<lparr>device = d, trace = trace w @ [ReadPoll byte]\<rparr>))"

definition call_delay :: "(int \<Rightarrow> 'd \<Rightarrow> 'd) \<Rightarrow> int \<Rightarrow> 'd world \<Rightarrow> 'd world" where
  "call_delay f ms w = \<lparr>device = f ms (device w), trace = trace w @ [Delayed ms]\<rparr>"

definition call_baud :: "(int \<Rightarrow> 'd \<Rightarrow> 'd) \<Rightarrow> int \<Rightarrow> 'd world \<Rightarrow> 'd world" where
  "call_baud f b w = \<lparr>device = f b (device w), trace = trace w @ [BaudInit b]\<rparr>"

definition call_log ::
  "(char list \<Rightarrow> log_arg list \<Rightarrow> 'd \<Rightarrow> 'd) \<Rightarrow> char list \<Rightarrow> log_arg list \<Rightarrow> 'd world \<Rightarrow> 'd world" where
  "call_log f fmt args w = \<lparr>device = f fmt args (device w), trace = trace w @ [Logged fmt args]\<rparr>"

text \<open>The macro \<^verbatim>\<open>debug\<close>: with a log function, the message and then a line end.\<close>

definition debug :: "'d AtCommanderConfig \<Rightarrow> 'd world \<Rightarrow> char list \<Rightarrow> log_arg list \<Rightarrow> 'd world" where
  "debug config w fmt args =
     (case log_function config of
        None \<Rightarrow> w
      | Some f \<Rightarrow> call_log f CRLF [] (call_log f fmt args w))"

subsection \<open>The C library functions the file calls\<close>

text \<open>\<^verbatim>\<open>strlen\<close>: the index of the first terminator of the array.\<close>

fun strlen_arr :: "char list \<Rightarrow> fault + nat" where
  "strlen_arr [] = Inl OutOfBounds"
| "strlen_arr (c # cs) =
     (if c = NUL then Inr 0
      else (case strlen_arr cs of Inl f \<Rightarrow> Inl f | Inr n \<Rightarrow> Inr (Suc n)))"

definition strlen :: "char list option \<Rightarrow> fault + nat" where
  "strlen p = (case p of None \<Rightarrow> Inl NullDereference | Some a \<Rightarrow> strlen_arr a)"

text \<open>
  \<^verbatim>\<open>strncmp\<close>, as far as the file uses its result: \<open>True\<close> stands for the result 0. At
  most \<open>n\<close> characters are compared, and none after a terminator.
\<close>

fun strncmp_zero :: "char list \<Rightarrow> char list \<Rightarrow> nat \<Rightarrow> fault + bool" where
  "strncmp_zero s1 s2 0 = Inr True"
| "strncmp_zero [] s2 (Suc n) = Inl OutOfBounds"
| "strncmp_zero (a # s1) [] (Suc n) = Inl OutOfBounds"
| "strncmp_zero (a # s1) (b # s2) (Suc n) =
     (if a \<noteq> b then Inr False
      else if a = NUL then Inr True
      else strncmp_zero s1 s2 n)"

text \<open>
  The count of \<^verbatim>\<open>strncmp\<close> is a \<^verbatim>\<open>size_t\<close>, and the file passes it an \<^verbatim>\<open>int\<close>. A negative
  \<^verbatim>\<open>int\<close> converts to a count beyond the length of any string, so the comparison runs as
  that of \<^verbatim>\<open>strcmp\<close>: to the first difference or the first terminator.
\<close>

fun strcmp_zero :: "char list \<Rightarrow> char list \<Rightarrow> fault + bool" where
  "strcmp_zero [] s2 = Inl OutOfBounds"
| "strcmp_zero (a # s1) [] = Inl OutOfBounds"
| "strcmp_zero (a # s1) (b # s2) =
     (if a \<noteq> b then Inr False
      else if a = NUL then Inr True
      else strcmp_zero s1 s2)"

definition strncmp_int :: "char list \<Rightarrow> char list \<Rightarrow> int \<Rightarrow> fault + bool" where
  "strncmp_int s1 s2 n =
     (if n < 0 then strcmp_zero s1 s2 else strncmp_zero s1 s2 (nat n))"

text \<open>
  \<^verbatim>\<open>sprintf\<close> with one \<^verbatim>\<open>int\<close> argument, for the formats the file has: plain characters,
  \<^verbatim>\<open>%d\<close> and \<^verbatim>\<open>%%\<close>. Any other conversion is outside the model.
\<close>

fun dec_nat :: "nat \<Rightarrow> char list" where
  "dec_nat n =
     (if n < 10 then [char_of (48 + n)]
      else dec_nat (n div 10) @ [char_of (48 + n mod 10)])"

declare dec_nat.simps [simp del]

definition dec_int :: "int \<Rightarrow> char list" where
  "dec_int i = (if i < 0 then CHR ''-'' # dec_nat (nat (- i)) else dec_nat (nat i))"

fun format_d :: "char list \<Rightarrow> int option \<Rightarrow> fault + char list" where
  "format_d [] arg = Inl OutOfBounds"
| "format_d [c] arg = (if c = NUL then Inr [] else Inl OutOfBounds)"
| "format_d (c # d # rest) arg =
     (if c = NUL then Inr []
      else if c = CHR ''%'' then
        (if d = CHR ''d'' then
           (case arg of
              None \<Rightarrow> Inl MissingArgument
            | Some v \<Rightarrow>
                (case format_d rest None of
                   Inl f \<Rightarrow> Inl f
                 | Inr s \<Rightarrow> Inr (dec_int v @ s)))
         else if d = CHR ''%'' then
           (case format_d rest arg of Inl f \<Rightarrow> Inl f | Inr s \<Rightarrow> Inr (CHR ''%'' # s))
         else Inl UnmodelledConversion)
      else (case format_d (d # rest) arg of Inl f \<Rightarrow> Inl f | Inr s \<Rightarrow> Inr (c # s)))"

text \<open>The destination has \<open>cap\<close> bytes; the result is the array written, terminator included.\<close>

definition sprintf :: "nat \<Rightarrow> char list option \<Rightarrow> int \<Rightarrow> fault + char list" where
  "sprintf cap fmt v =
     (case fmt of
        None \<Rightarrow> Inl NullDereference
      | Some f \<Rightarrow>
          (case format_d f (Some v) of
             Inl e \<Rightarrow> Inl e
           | Inr s \<Rightarrow> if length s + 1 \<le> cap then Inr (s @ [NUL]) else Inl BufferOverflow))"

subsection \<open>The platforms\<close>

definition passthrough_baud_rate_mapper :: "int \<Rightarrow> fault + int" where
  "passthrough_baud_rate_mapper b = Inr b"

text \<open>
  The \<^verbatim>\<open>switch\<close> has no \<^verbatim>\<open>default\<close>: for any other argument the function returns the
  local \<^verbatim>\<open>value\<close> without having assigned it.
\<close>

definition xbee_baud_rate_mapper :: "int \<Rightarrow> fault + int" where
  "xbee_baud_rate_mapper b =
     (if b = 1200 then Inr 0
      else if b = 2300 then Inr 1
      else if b = 4800 then Inr 2
      else if b = 9600 then Inr 3
      else if b = 19200 then Inr 4
      else if b = 38400 then Inr 5
      else if b = 57600 then Inr 6
      else if b = 115200 then Inr 7
      else Inl UninitialisedRead)"

definition AT_PLATFORM_RN42 :: "int \<Rightarrow> AtCommanderPlatform" where
  "AT_PLATFORM_RN42 DEFAULT_RESPONSE_DELAY_MS =
     \<lparr>response_delay_ms = DEFAULT_RESPONSE_DELAY_MS,
      baud_rate_mapper = None,
      enter_command_mode_command =
        \<lparr>request_format = literal ''$$$'', expected_response = literal (''CMD'' @ CRLF)\<rparr>,
      exit_command_mode_command =
        \<lparr>request_format = literal ''---'', expected_response = literal (''END'' @ CRLF)\<rparr>,
      set_baud_rate_command =
        \<lparr>request_format = literal (''SU,%d'' @ CRLF), expected_response = literal (''AOK'' @ CRLF)\<rparr>,
      store_settings_command = \<lparr>request_format = None, expected_response = None\<rparr>,
      reboot_command = \<lparr>request_format = literal (''R,1'' @ CRLF), expected_response = None\<rparr>\<rparr>"

definition AT_PLATFORM_XBEE :: AtCommanderPlatform where
  "AT_PLATFORM_XBEE =
     \<lparr>response_delay_ms = 3000,
      baud_rate_mapper = Some xbee_baud_rate_mapper,
      enter_command_mode_command =
        \<lparr>request_format = literal ''+++'', expected_response = literal ''OK''\<rparr>,
      exit_command_mode_command = \<lparr>request_format = None, expected_response = None\<rparr>,
      set_baud_rate_command =
        \<lparr>request_format = literal (''ATBD %d'' @ CRLF), expected_response = literal (''OK'' @ CRLF)\<rparr>,
      store_settings_command =
        \<lparr>request_format = literal (''ATWR'' @ CRLF), expected_response = literal (''OK'' @ CRLF)\<rparr>,
      reboot_command = \<lparr>request_format = None, expected_response = None\<rparr>\<rparr>"

subsection \<open>The private functions\<close>

text \<open>
  \<^verbatim>\<open>write\<close> (here \<open>write_bytes\<close>, the name being taken): without a write function nothing is even read from \<^verbatim>\<open>bytes\<close>; with one,
  \<^verbatim>\<open>bytes[i]\<close> is read for every \<open>i\<close> below \<^verbatim>\<open>size\<close>, whatever the length of the string.
\<close>

function write_loop ::
  "(char \<Rightarrow> 'd \<Rightarrow> 'd) \<Rightarrow> char list option \<Rightarrow> int \<Rightarrow> int \<Rightarrow> 'd world \<Rightarrow> fault + 'd world" where
  "write_loop f bytes sz i w =
     (if i < sz then
        (case bytes of
           None \<Rightarrow> Inl NullDereference
         | Some a \<Rightarrow>
             if 0 \<le> i \<and> nat i < length a
             then write_loop f bytes sz (i + 1) (call_write f (a ! nat i) w)
             else Inl OutOfBounds)
      else Inr w)"
  by pat_completeness auto
termination
  by (relation "measure (\<lambda>(f, bytes, sz, i, w). nat (sz - i))") auto

declare write_loop.simps [simp del]

definition write_bytes ::
  "'d AtCommanderConfig \<Rightarrow> 'd world \<Rightarrow> char list option \<Rightarrow> int \<Rightarrow> fault + 'd world" where
  "write_bytes config w bytes sz =
     (case write_function config of
        None \<Rightarrow> Inr w
      | Some f \<Rightarrow> write_loop f bytes sz 0 w)"

definition delay_ms :: "'d AtCommanderConfig \<Rightarrow> 'd world \<Rightarrow> int \<Rightarrow> 'd world" where
  "delay_ms config w ms =
     (case delay_function config of
        None \<Rightarrow> w
      | Some f \<Rightarrow> call_delay f ms w)"

text \<open>
  \<^verbatim>\<open>read\<close>: \<open>buffer\<close> is the list of the bytes stored so far, so \<^verbatim>\<open>bytes_read\<close> is its
  length; \<open>cap\<close> is the size of the array the caller passed. The read function is called
  without a test for \<^verbatim>\<open>NULL\<close>.
\<close>

function read_loop ::
  "'d AtCommanderConfig \<Rightarrow> nat \<Rightarrow> int \<Rightarrow> int \<Rightarrow> char list \<Rightarrow> int \<Rightarrow> 'd world
     \<Rightarrow> fault + (char list \<times> 'd world)" where
  "read_loop config cap sz max_retries buffer retries w =
     (if int (length buffer) < sz \<and> retries < max_retries then
        (case read_function config of
           None \<Rightarrow> Inl NullCall
         | Some f \<Rightarrow>
             (case call_read f w of
                (byte, w1) \<Rightarrow>
                  if byte = - 1 then
                    read_loop config cap sz max_retries buffer (retries + 1)
                      (delay_ms config w1 RETRY_DELAY_MS)
                  else if length buffer < cap then
                    read_loop config cap sz max_retries (buffer @ [char_of byte]) retries w1
                  else Inl BufferOverflow))
      else Inr (buffer, w))"
  by pat_completeness auto
termination
  by (relation "measure (\<lambda>(config, cap, sz, max_retries, buffer, retries, w).
        nat (sz - int (length buffer)) + nat (max_retries - retries))") auto

declare read_loop.simps [simp del]

definition read ::
  "'d AtCommanderConfig \<Rightarrow> 'd world \<Rightarrow> nat \<Rightarrow> int \<Rightarrow> int \<Rightarrow> fault + (char list \<times> 'd world)" where
  "read config w cap sz max_retries = read_loop config cap sz max_retries [] 0 w"

text \<open>
  \<^verbatim>\<open>check_response\<close>: the two arrays and the two lengths, as in C. \<^verbatim>\<open>strncmp\<close> is only
  called when the lengths are equal, with the expected length as its count.
\<close>

definition check_response ::
  "'d AtCommanderConfig \<Rightarrow> 'd world \<Rightarrow> char list \<Rightarrow> int \<Rightarrow> char list \<Rightarrow> int
     \<Rightarrow> fault + (bool \<times> 'd world)" where
  "check_response config w response response_length expected expected_length =
     (case (if response_length = expected_length
            then strncmp_int response expected expected_length
            else Inr False) of
        Inl f \<Rightarrow> Inl f
      | Inr True \<Rightarrow> Inr (True, w)
      | Inr False \<Rightarrow>
          (let w1 = (if response_length \<noteq> expected_length
                     then debug config w ''Expected %d bytes in response but received %d''
                            [IntArg expected_length, IntArg response_length]
                     else w);
               w2 = (if response_length > 0
                     then debug config w1 ''Expected %s response but got %s''
                            [StrArg expected, StrArg response]
                     else w1)
           in Inr (False, w2)))"

definition command_request ::
  "'d AtCommanderConfig \<Rightarrow> 'd world \<Rightarrow> char list option \<Rightarrow> char list option
     \<Rightarrow> fault + (bool \<times> 'd world)" where
  "command_request config w command expected =
     (case strlen command of
        Inl f \<Rightarrow> Inl f
      | Inr n \<Rightarrow>
          (case write_bytes config w command (int n) of
             Inl f \<Rightarrow> Inl f
           | Inr w1 \<Rightarrow>
               (let w2 = delay_ms config w1 (response_delay_ms (platform config)) in
                (case expected of
                   None \<Rightarrow> Inl NullDereference
                 | Some e \<Rightarrow>
                     (case strlen_arr e of
                        Inl f \<Rightarrow> Inl f
                      | Inr m \<Rightarrow>
                          (case read config w2 MAX_RESPONSE_LENGTH (int m) MAX_RETRIES of
                             Inl f \<Rightarrow> Inl f
                           | Inr (response, w3) \<Rightarrow>
                               check_response config w3 response (int (length response))
                                 e (int m)))))))"

definition initialize_baud ::
  "'d AtCommanderConfig \<Rightarrow> 'd world \<Rightarrow> int \<Rightarrow> bool \<times> 'd AtCommanderConfig \<times> 'd world" where
  "initialize_baud config w b =
     (case baud_rate_initializer config of
        Some f \<Rightarrow>
          (True, config\<lparr>baud := b\<rparr>,
           call_baud f b (debug config w ''Initializing at baud %d'' [IntArg b]))
      | None \<Rightarrow>
          (False, config,
           debug config w
             (''No baud rate initializer set, can'' @ [CHR 0x27] @ ''t change baud - trying anyway'') []))"

subsection \<open>The public functions\<close>

text \<open>The \<^verbatim>\<open>for\<close> loop of \<^verbatim>\<open>at_commander_enter_command_mode\<close>, over the rest of the table.\<close>

fun probe_bauds ::
  "'d AtCommanderConfig \<Rightarrow> 'd world \<Rightarrow> int list \<Rightarrow> fault + ('d AtCommanderConfig \<times> 'd world)" where
  "probe_bauds config w [] = Inr (config, w)"
| "probe_bauds config w (b # bs) =
     (case initialize_baud config w b of
        (_, c1, w1) \<Rightarrow>
          (case command_request c1 (debug c1 w1 ''Attempting to enter command mode'' [])
                  (request_format (enter_command_mode_command (platform c1)))
                  (expected_response (enter_command_mode_command (platform c1))) of
             Inl f \<Rightarrow> Inl f
           | Inr (ok, w2) \<Rightarrow>
               if ok then Inr (c1\<lparr>connected := True\<rparr>, w2)
               else probe_bauds c1 w2 bs))"

definition at_commander_enter_command_mode ::
  "int list \<Rightarrow> 'd AtCommanderConfig \<Rightarrow> 'd world
     \<Rightarrow> fault + (bool \<times> 'd AtCommanderConfig \<times> 'd world)" where
  "at_commander_enter_command_mode VALID_BAUD_RATES config w =
     (if \<not> connected config then
        (case probe_bauds config w VALID_BAUD_RATES of
           Inl f \<Rightarrow> Inl f
         | Inr (c1, w1) \<Rightarrow>
             Inr (connected c1, c1,
                  if connected c1
                  then debug c1 w1 ''Initialized UART and entered command mode at baud %d''
                         [IntArg (baud c1)]
                  else debug c1 w1 ''Unable to enter command mode at any baud rate'' []))
      else Inr (connected config, config, debug config w ''Already in command mode'' []))"

definition at_commander_exit_command_mode ::
  "'d AtCommanderConfig \<Rightarrow> 'd world \<Rightarrow> fault + (bool \<times> 'd AtCommanderConfig \<times> 'd world)" where
  "at_commander_exit_command_mode config w =
     (if connected config then
        (case command_request config w
                (request_format (exit_command_mode_command (platform config)))
                (expected_response (exit_command_mode_command (platform config))) of
           Inl f \<Rightarrow> Inl f
         | Inr (ok, w1) \<Rightarrow>
             if ok
             then Inr (True, config\<lparr>connected := False\<rparr>,
                       debug config w1 ''Switched back to data mode'' [])
             else Inr (False, config, debug config w1 ''Unable to exit command mode'' []))
      else Inr (True, config, debug config w ''Not in command mode'' []))"

definition at_commander_reboot ::
  "int list \<Rightarrow> 'd AtCommanderConfig \<Rightarrow> 'd world
     \<Rightarrow> fault + (bool \<times> 'd AtCommanderConfig \<times> 'd world)" where
  "at_commander_reboot VALID_BAUD_RATES config w =
     (case at_commander_enter_command_mode VALID_BAUD_RATES config w of
        Inl f \<Rightarrow> Inl f
      | Inr (ok, c1, w1) \<Rightarrow>
          if ok then
            (case write_bytes c1 w1 (request_format (reboot_command (platform c1))) 5 of
               Inl f \<Rightarrow> Inl f
             | Inr w2 \<Rightarrow> Inr (True, c1, debug c1 w2 ''Rebooting RN-42'' []))
          else Inr (False, c1,
                    debug c1 w1 (''Unable to enter command mode, can'' @ [CHR 0x27] @ ''t reboot'') []))"

definition at_commander_store_settings ::
  "'d AtCommanderConfig \<Rightarrow> 'd world \<Rightarrow> fault + (bool \<times> 'd world)" where
  "at_commander_store_settings config w =
     (if request_format (store_settings_command (platform config)) \<noteq> None
         \<and> expected_response (store_settings_command (platform config)) \<noteq> None
      then
        (case command_request config w
                (request_format (store_settings_command (platform config)))
                (expected_response (store_settings_command (platform config))) of
           Inl f \<Rightarrow> Inl f
         | Inr (ok, w1) \<Rightarrow>
             if ok then Inr (True, debug config w1 ''Stored settings into flash memory'' [])
             else Inr (False, debug config w1 ''Unable to store settings in flash memory'' []))
      else Inr (False, w))"

text \<open>Lines 216 to 219: the mapper of the platform, or the identity when it has none.\<close>

definition select_baud_rate_mapper :: "'d AtCommanderConfig \<Rightarrow> int \<Rightarrow> fault + int" where
  "select_baud_rate_mapper config =
     (case baud_rate_mapper (platform config) of
        None \<Rightarrow> passthrough_baud_rate_mapper
      | Some m \<Rightarrow> m)"

definition at_commander_set_baud ::
  "int list \<Rightarrow> 'd AtCommanderConfig \<Rightarrow> 'd world \<Rightarrow> int
     \<Rightarrow> fault + (bool \<times> 'd AtCommanderConfig \<times> 'd world)" where
  "at_commander_set_baud VALID_BAUD_RATES config w b =
     (case at_commander_enter_command_mode VALID_BAUD_RATES config w of
        Inl f \<Rightarrow> Inl f
      | Inr (ok, c1, w1) \<Rightarrow>
          if ok then
            (case select_baud_rate_mapper c1 b of
               Inl f \<Rightarrow> Inl f
             | Inr v \<Rightarrow>
                 (case sprintf 5 (request_format (set_baud_rate_command (platform c1))) v of
                    Inl f \<Rightarrow> Inl f
                  | Inr command \<Rightarrow>
                      (case command_request c1 w1 (Some command)
                              (expected_response (set_baud_rate_command (platform c1))) of
                         Inl f \<Rightarrow> Inl f
                       | Inr (ok2, w2) \<Rightarrow>
                           if ok2 then
                             (let w3 = debug c1 w2 ''Changed device baud rate to %d'' [IntArg b];
                                  c2 = c1\<lparr>device_baud := b\<rparr>
                              in (case at_commander_store_settings c2 w3 of
                                    Inl f \<Rightarrow> Inl f
                                  | Inr (_, w4) \<Rightarrow> Inr (True, c2, w4)))
                           else Inr (False, c1,
                                     debug c1 w2 ''Unable to change device baud rate'' []))))
          else Inr (False, c1,
                    debug c1 w1
                      (''Unable to enter command mode, can'' @ [CHR 0x27] @ ''t set baud rate'') []))"

subsection \<open>What a trace shows\<close>

text \<open>
  The projections of a trace the theorems speak of: the bytes written, the results of
  the polls, the delays, the baud rates the UART was set to, and the calls to the
  transport (all events but the log messages).
\<close>

fun written_of :: "event \<Rightarrow> char list" where
  "written_of (Written c) = [c]"
| "written_of _ = []"

definition written :: "event list \<Rightarrow> char list" where
  "written es = concat (map written_of es)"

fun poll_of :: "event \<Rightarrow> int list" where
  "poll_of (ReadPoll byte) = [byte]"
| "poll_of _ = []"

definition polls :: "event list \<Rightarrow> int list" where
  "polls es = concat (map poll_of es)"

fun delay_of :: "event \<Rightarrow> int list" where
  "delay_of (Delayed ms) = [ms]"
| "delay_of _ = []"

definition delays :: "event list \<Rightarrow> int list" where
  "delays es = concat (map delay_of es)"

fun baud_of :: "event \<Rightarrow> int list" where
  "baud_of (BaudInit b) = [b]"
| "baud_of _ = []"

definition bauds_initialized :: "event list \<Rightarrow> int list" where
  "bauds_initialized es = concat (map baud_of es)"

fun is_transport :: "event \<Rightarrow> bool" where
  "is_transport (Logged fmt args) = False"
| "is_transport _ = True"

definition transport :: "event list \<Rightarrow> event list" where
  "transport es = filter is_transport es"

text \<open>Among the results of polls: how many found no byte, and the bytes the others stored.\<close>

definition empty_polls :: "int list \<Rightarrow> nat" where
  "empty_polls ps = length (filter (\<lambda>byte. byte = - 1) ps)"

definition bytes_polled :: "int list \<Rightarrow> char list" where
  "bytes_polled ps = map char_of (filter (\<lambda>byte. byte \<noteq> - 1) ps)"

subsection \<open>Strings and descriptors\<close>

text \<open>The string an array holds: its characters before the first terminator.\<close>

definition string_of :: "char list \<Rightarrow> char list" where
  "string_of a = takeWhile (\<lambda>c. c \<noteq> NUL) a"

text \<open>
  A descriptor that \<open>command_request\<close> can issue: both strings are there and terminated,
  and the expected response fits the array \<^verbatim>\<open>response\<close>.
\<close>

definition issuable :: "AtCommand \<Rightarrow> bool" where
  "issuable cmd =
     (case (request_format cmd, expected_response cmd) of
        (Some r, Some e) \<Rightarrow>
          NUL \<in> set r \<and> NUL \<in> set e \<and> length (string_of e) \<le> MAX_RESPONSE_LENGTH
      | _ \<Rightarrow> False)"

subsection \<open>The probing loop, one turn at a time\<close>

text \<open>
  Two notions the theorem about the probing loop is stated with. \<open>probe_once\<close> is one turn
  of the loop up to its test: set the baud rate, log, send the enter descriptor and
  check the response. \<open>failed_probes\<close> runs \<open>probe_once\<close> over a list of baud rates in order
  and gives the state reached when every one of them failed.
\<close>

definition probe_once ::
  "'d AtCommanderConfig \<Rightarrow> 'd world \<Rightarrow> int
     \<Rightarrow> fault + (bool \<times> 'd AtCommanderConfig \<times> 'd world)" where
  "probe_once config w b =
     (case initialize_baud config w b of
        (_, c1, w1) \<Rightarrow>
          (case command_request c1 (debug c1 w1 ''Attempting to enter command mode'' [])
                  (request_format (enter_command_mode_command (platform c1)))
                  (expected_response (enter_command_mode_command (platform c1))) of
             Inl f \<Rightarrow> Inl f
           | Inr (ok, w2) \<Rightarrow> Inr (ok, c1, w2)))"

fun failed_probes ::
  "'d AtCommanderConfig \<Rightarrow> 'd world \<Rightarrow> int list \<Rightarrow> ('d AtCommanderConfig \<times> 'd world) option" where
  "failed_probes config w [] = Some (config, w)"
| "failed_probes config w (b # bs) =
     (case probe_once config w b of
        Inl f \<Rightarrow> None
      | Inr (ok, c1, w1) \<Rightarrow> if ok then None else failed_probes c1 w1 bs)"

subsection \<open>The steps of the baud rate change\<close>

text \<open>
  The steps of \<open>at_commander_set_baud\<close> up to its request, as a test: command mode is
  entered, the value is mapped and formatted, and the request returns \<open>r\<close>.
\<close>

definition set_baud_steps ::
  "int list \<Rightarrow> 'd AtCommanderConfig \<Rightarrow> 'd world \<Rightarrow> int \<Rightarrow> bool \<Rightarrow> bool" where
  "set_baud_steps V config w b r =
    (case at_commander_enter_command_mode V config w of
      Inl f \<Rightarrow> False
    | Inr (ok, c1, w1) \<Rightarrow> ok \<and>
        (case select_baud_rate_mapper c1 b of
           Inl f \<Rightarrow> False
         | Inr v \<Rightarrow>
            (case sprintf 5 (request_format (set_baud_rate_command (platform c1))) v of
               Inl f \<Rightarrow> False
             | Inr command \<Rightarrow>
                (case command_request c1 w1 (Some command)
                        (expected_response (set_baud_rate_command (platform c1))) of
                   Inl f \<Rightarrow> False
                 | Inr (ok2, w2) \<Rightarrow> ok2 = r))))"

subsection \<open>A device to run the functions on\<close>

text \<open>
  A transport whose read function plays a script: the list of the results of the polls
  to come, and \<open>- 1\<close> (no byte) once the script is over. The other callbacks are present
  and leave the script alone.
\<close>

definition scripted_read :: "int list \<Rightarrow> int \<times> int list" where
  "scripted_read d = (case d of [] \<Rightarrow> (- 1, []) | x # xs \<Rightarrow> (x, xs))"

definition scripted_config :: "AtCommanderPlatform \<Rightarrow> int list AtCommanderConfig" where
  "scripted_config p =
     \<lparr>platform = p,
      baud_rate_initializer = Some (\<lambda>b d. d),
      write_function = Some (\<lambda>c d. d),
      read_function = Some scripted_read,
      delay_function = Some (\<lambda>ms d. d),
      log_function = Some (\<lambda>fmt args d. d),
      connected = False, baud = 0, device_baud = 0\<rparr>"

definition start :: "int list \<Rightarrow> int list world" where
  "start script = \<lparr>device = script, trace = []\<rparr>"

text \<open>
  A connected XBee session whose platform has a reboot request \<open>s\<close> (the platform of the
  file has none).
\<close>

definition xbee_with_reboot :: "char list \<Rightarrow> int list AtCommanderConfig" where
  "xbee_with_reboot s =
     scripted_config
       (AT_PLATFORM_XBEE\<lparr>reboot_command :=
          \<lparr>request_format = literal s, expected_response = None\<rparr>\<rparr>)
     \<lparr>connected := True\<rparr>"

text \<open>
  An XBee session whose set-baud request is short enough for the five bytes of
  \<^verbatim>\<open>command\<close> (those of the two platforms of the file are not).
\<close>

definition xbee_short_set_baud :: "int list AtCommanderConfig" where
  "xbee_short_set_baud =
     scripted_config
       (AT_PLATFORM_XBEE\<lparr>set_baud_rate_command :=
          \<lparr>request_format = literal ''B%d'', expected_response = literal ''K''\<rparr>\<rparr>)"

section \<open>Theorems\<close>

subsection \<open>The baud rate mappers\<close>

text \<open>
  C9. \<open>xbee_baud_rate_mapper\<close> sends 1200, 2300, 4800, 9600, 19200, 38400, 57600 and
  115200 to the codes 0 to 7 in this order (so 9600 to 3 and 115200 to 7); for any other
  argument its result is not defined: it returns a variable it never assigned. The
  mapper \<open>at_commander_set_baud\<close> takes when the platform has none is
  \<open>passthrough_baud_rate_mapper\<close>, the identity.
\<close>

theorem xbee_baud_rate_mapper_table:
  "map xbee_baud_rate_mapper [1200, 2300, 4800, 9600, 19200, 38400, 57600, 115200]
     = map Inr [0, 1, 2, 3, 4, 5, 6, 7]
   \<and> (b \<notin> {1200, 2300, 4800, 9600, 19200, 38400, 57600, 115200}
        \<longrightarrow> xbee_baud_rate_mapper b = Inl UninitialisedRead)
   \<and> passthrough_baud_rate_mapper b = Inr b
   \<and> (baud_rate_mapper (platform config) = None \<longrightarrow> select_baud_rate_mapper config b = Inr b)"
  by (simp add: xbee_baud_rate_mapper_def passthrough_baud_rate_mapper_def
      select_baud_rate_mapper_def)

theorem xbee_baud_rate_mapper_table_witness:
  "xbee_baud_rate_mapper 300 = Inl UninitialisedRead
   \<and> select_baud_rate_mapper (scripted_config (AT_PLATFORM_RN42 100)) 9600 = Inr 9600"
  using xbee_baud_rate_mapper_table [of 300 "scripted_config (AT_PLATFORM_RN42 100)"]
    xbee_baud_rate_mapper_table [of 9600 "scripted_config (AT_PLATFORM_RN42 100)"]
  by (simp add: scripted_config_def AT_PLATFORM_RN42_def)

subsection \<open>The buffer of the set-baud command\<close>

lemma dec_nat_nonempty: "dec_nat n \<noteq> []"
  by (subst dec_nat.simps) simp

lemma dec_int_nonempty: "dec_int v \<noteq> []"
  by (simp add: dec_int_def dec_nat_nonempty)

lemma format_rn42:
  "format_d (''SU,%d'' @ CRLF @ [NUL]) (Some v) = Inr (''SU,'' @ dec_int v @ CRLF)"
  by (simp add: NUL_def CRLF_def)

lemma format_xbee:
  "format_d (''ATBD %d'' @ CRLF @ [NUL]) (Some v) = Inr (''ATBD '' @ dec_int v @ CRLF)"
  by (simp add: NUL_def CRLF_def)

lemma sprintf_rn42:
  "sprintf 5 (request_format (set_baud_rate_command (AT_PLATFORM_RN42 d))) v = Inl BufferOverflow"
  using format_rn42 [of v] by (simp add: sprintf_def literal_def CRLF_def AT_PLATFORM_RN42_def)

lemma sprintf_xbee:
  "sprintf 5 (request_format (set_baud_rate_command AT_PLATFORM_XBEE)) v = Inl BufferOverflow"
  using format_xbee [of v] by (simp add: sprintf_def literal_def CRLF_def AT_PLATFORM_XBEE_def)

lemma mapper_rn42: "baud_rate_mapper (AT_PLATFORM_RN42 d) = None"
  by (simp add: AT_PLATFORM_RN42_def)

text \<open>
  C10 says that the formatted set-baud request and its terminator fit the five bytes of
  \<^verbatim>\<open>command\<close>. They do not: for both platforms of the file and every value to format,
  \<^verbatim>\<open>sprintf\<close> writes past the end of the array (the shortest request, \<^verbatim>\<open>SU,0\<close> and the
  line end, takes seven bytes). So does the call of \<open>at_commander_set_baud\<close> for 9600
  baud on a connected RN-42 session.
\<close>

theorem set_baud_command_overflows:
  "(\<forall>v. sprintf 5 (request_format (set_baud_rate_command (AT_PLATFORM_RN42 d))) v
          = Inl BufferOverflow)
   \<and> (\<forall>v. sprintf 5 (request_format (set_baud_rate_command AT_PLATFORM_XBEE)) v
          = Inl BufferOverflow)
   \<and> at_commander_set_baud V ((scripted_config (AT_PLATFORM_RN42 d))\<lparr>connected := True\<rparr>)
         (start []) 9600
       = Inl BufferOverflow"
  by (simp add: sprintf_rn42 sprintf_xbee mapper_rn42
      at_commander_set_baud_def at_commander_enter_command_mode_def scripted_config_def
      select_baud_rate_mapper_def passthrough_baud_rate_mapper_def)

subsection \<open>Comparing a response\<close>

lemma strncmp_zero_take:
  "n \<le> length s1 \<Longrightarrow> n \<le> length s2 \<Longrightarrow> NUL \<notin> set (take n s2)
    \<Longrightarrow> strncmp_zero s1 s2 n = Inr (take n s1 = take n s2)"
  by (induction s1 s2 n rule: strncmp_zero.induct) auto

lemma check_response_mismatch:
  "response_length \<noteq> expected_length
    \<Longrightarrow> \<exists>w'. check_response config w response response_length expected expected_length
          = Inr (False, w')"
  by (simp add: check_response_def Let_def)

lemma strncmp_int_nonneg: "0 \<le> n \<Longrightarrow> strncmp_int s1 s2 n = strncmp_zero s1 s2 (nat n)"
  by (simp add: strncmp_int_def)

lemma check_response_same_length:
  assumes "strncmp_int response expected n = Inr r"
  shows "\<exists>w'. check_response config w response n expected n = Inr (r, w')"
  using assms by (cases r) (simp_all add: check_response_def Let_def)

text \<open>
  C2, as stated, fails: \<^verbatim>\<open>strncmp\<close> compares nothing after a terminator, so two
  sequences of the same length that agree up to a NUL byte they share are found equal,
  whatever follows.
\<close>

theorem check_response_nul_counterexample:
  "check_response (scripted_config AT_PLATFORM_XBEE) (start [])
       [CHR ''A'', NUL, CHR ''B''] 3 [CHR ''A'', NUL, CHR ''C''] 3
     = Inr (True, start [])
   \<and> [CHR ''A'', NUL, CHR ''B''] \<noteq> [CHR ''A'', NUL, CHR ''C'']"
  by (simp add: check_response_def strncmp_int_def NUL_def numeral_3_eq_3)

text \<open>
  C2, amended. Different lengths alone make \<open>check_response\<close> return false, whatever
  the contents. When the expected bytes hold no NUL byte (they are a string measured by
  \<^verbatim>\<open>strlen\<close>, as in every call the file makes), \<open>check_response\<close> returns true exactly
  when the two lengths are equal and the bytes are the same. In both cases it returns
  its boolean and nothing else: no fault.
\<close>

theorem check_response_iff:
  "(response_length \<noteq> expected_length
      \<longrightarrow> (\<exists>w'. check_response config w response response_length expected expected_length
            = Inr (False, w')))
   \<and> (0 \<le> expected_length \<and> expected_length \<le> int (length expected)
        \<and> 0 \<le> response_length \<and> response_length \<le> int (length response)
        \<and> NUL \<notin> set (take (nat expected_length) expected)
      \<longrightarrow> (\<exists>w'. check_response config w response response_length expected expected_length
            = Inr (response_length = expected_length
                   \<and> take (nat response_length) response
                       = take (nat expected_length) expected, w')))"
proof (intro conjI impI)
  assume "response_length \<noteq> expected_length"
  then show "\<exists>w'. check_response config w response response_length expected expected_length
      = Inr (False, w')"
    by (rule check_response_mismatch)
next
  assume h: "0 \<le> expected_length \<and> expected_length \<le> int (length expected)
        \<and> 0 \<le> response_length \<and> response_length \<le> int (length response)
        \<and> NUL \<notin> set (take (nat expected_length) expected)"
  show "\<exists>w'. check_response config w response response_length expected expected_length
            = Inr (response_length = expected_length
                   \<and> take (nat response_length) response
                       = take (nat expected_length) expected, w')"
  proof (cases "response_length = expected_length")
    case False
    then show ?thesis using check_response_mismatch [OF False] by simp
  next
    case True
    from h True have "strncmp_zero response expected (nat expected_length)
        = Inr (take (nat expected_length) response = take (nat expected_length) expected)"
      by (intro strncmp_zero_take) auto
    with h have "strncmp_int response expected expected_length
        = Inr (take (nat expected_length) response = take (nat expected_length) expected)"
      by (simp add: strncmp_int_nonneg)
    from check_response_same_length [OF this] True show ?thesis by simp
  qed
qed

theorem check_response_iff_witness:
  "(\<exists>w'. check_response (scripted_config AT_PLATFORM_XBEE) (start [])
            (''EN'' @ CRLF) 4 (''END'' @ CRLF @ [NUL]) 5 = Inr (False, w'))
   \<and> (\<exists>w'. check_response (scripted_config AT_PLATFORM_XBEE) (start [])
            (''END'' @ CRLF) 5 (''END'' @ CRLF @ [NUL]) 5 = Inr (True, w'))
   \<and> (\<exists>w'. check_response (scripted_config AT_PLATFORM_XBEE) (start [])
            (''ENX'' @ CRLF) 5 (''END'' @ CRLF @ [NUL]) 5 = Inr (False, w'))"
  using
    check_response_iff [where response_length = 4 and expected_length = 5
      and response = "''EN'' @ CRLF" and expected = "''END'' @ CRLF @ [NUL]"
      and config = "scripted_config AT_PLATFORM_XBEE" and w = "start []"]
    check_response_iff [where response_length = 5 and expected_length = 5
      and response = "''END'' @ CRLF" and expected = "''END'' @ CRLF @ [NUL]"
      and config = "scripted_config AT_PLATFORM_XBEE" and w = "start []"]
    check_response_iff [where response_length = 5 and expected_length = 5
      and response = "''ENX'' @ CRLF" and expected = "''END'' @ CRLF @ [NUL]"
      and config = "scripted_config AT_PLATFORM_XBEE" and w = "start []"]
  by (simp add: CRLF_def NUL_def)

subsection \<open>Traces of the primitives\<close>

lemma written_append [simp]: "written (xs @ ys) = written xs @ written ys"
  by (simp add: written_def)

lemma polls_append [simp]: "polls (xs @ ys) = polls xs @ polls ys"
  by (simp add: polls_def)

lemma delays_append [simp]: "delays (xs @ ys) = delays xs @ delays ys"
  by (simp add: delays_def)

lemma bauds_initialized_append [simp]:
  "bauds_initialized (xs @ ys) = bauds_initialized xs @ bauds_initialized ys"
  by (simp add: bauds_initialized_def)

lemma transport_append [simp]: "transport (xs @ ys) = transport xs @ transport ys"
  by (simp add: transport_def)

lemma projections_Nil [simp]:
  "written [] = []" "polls [] = []" "delays [] = []" "bauds_initialized [] = []"
  "transport [] = []"
  by (simp_all add: written_def polls_def delays_def bauds_initialized_def transport_def)

lemma projections_Cons [simp]:
  "written (e # es) = written_of e @ written es"
  "polls (e # es) = poll_of e @ polls es"
  "delays (e # es) = delay_of e @ delays es"
  "bauds_initialized (e # es) = baud_of e @ bauds_initialized es"
  "transport (e # es) = (if is_transport e then e # transport es else transport es)"
  by (simp_all add: written_def polls_def delays_def bauds_initialized_def transport_def)

lemma trace_call_log [simp]: "trace (call_log f fmt args w) = trace w @ [Logged fmt args]"
  by (simp add: call_log_def)

lemma trace_call_write [simp]: "trace (call_write f c w) = trace w @ [Written c]"
  by (simp add: call_write_def)

lemma trace_call_delay [simp]: "trace (call_delay f ms w) = trace w @ [Delayed ms]"
  by (simp add: call_delay_def)

lemma trace_call_baud [simp]: "trace (call_baud f b w) = trace w @ [BaudInit b]"
  by (simp add: call_baud_def)

lemma trace_call_read: "call_read f w = (byte, w1) \<Longrightarrow> trace w1 = trace w @ [ReadPoll byte]"
  by (auto simp: call_read_def split: prod.splits)

lemma debug_projections [simp]:
  "written (trace (debug config w fmt args)) = written (trace w)"
  "polls (trace (debug config w fmt args)) = polls (trace w)"
  "delays (trace (debug config w fmt args)) = delays (trace w)"
  "bauds_initialized (trace (debug config w fmt args)) = bauds_initialized (trace w)"
  "transport (trace (debug config w fmt args)) = transport (trace w)"
  by (simp_all add: debug_def split: option.splits)

lemma delay_ms_projections [simp]:
  "written (trace (delay_ms config w ms)) = written (trace w)"
  "polls (trace (delay_ms config w ms)) = polls (trace w)"
  "bauds_initialized (trace (delay_ms config w ms)) = bauds_initialized (trace w)"
  "delays (trace (delay_ms config w ms))
     = delays (trace w) @ (if delay_function config = None then [] else [ms])"
  by (simp_all add: delay_ms_def split: option.splits)

subsection \<open>The retrying read\<close>

lemma read_loop_trace:
  "read_loop config cap sz max_retries buffer retries w = Inr (buffer', w')
   \<Longrightarrow> \<exists>ps. polls (trace w') = polls (trace w) @ ps
        \<and> buffer' = buffer @ bytes_polled ps
        \<and> retries + int (empty_polls ps) \<le> max retries max_retries
        \<and> int (length buffer') \<le> max (int (length buffer)) sz
        \<and> \<not> (int (length buffer') < sz \<and> retries + int (empty_polls ps) < max_retries)
        \<and> delays (trace w') = delays (trace w)
             @ (if delay_function config = None then []
                else replicate (empty_polls ps) RETRY_DELAY_MS)
        \<and> written (trace w') = written (trace w)
        \<and> bauds_initialized (trace w') = bauds_initialized (trace w)"
proof (induction config cap sz max_retries buffer retries w arbitrary: buffer' w'
    rule: read_loop.induct)
  case (1 config cap sz max_retries buffer retries w)
  show ?case
  proof (cases "int (length buffer) < sz \<and> retries < max_retries")
    case False
    with "1.prems" have "buffer' = buffer" "w' = w"
      by (simp_all add: read_loop.simps)
    with False show ?thesis
      by (intro exI [of _ "[]"]) (auto simp: empty_polls_def bytes_polled_def)
  next
    case True
    with "1.prems" obtain f where f: "read_function config = Some f"
      by (cases "read_function config") (simp_all add: read_loop.simps)
    obtain byte w1 where cr: "call_read f w = (byte, w1)"
      by (cases "call_read f w")
    note tr = trace_call_read [OF cr]
    show ?thesis
    proof (cases "byte = - 1")
      case empty: True
      from "1.prems" True f cr empty
      have rec: "read_loop config cap sz max_retries buffer (retries + 1)
                   (delay_ms config w1 RETRY_DELAY_MS) = Inr (buffer', w')"
        by (simp add: read_loop.simps)
      from "1.IH"(1) [OF True f cr [symmetric] empty rec]
      obtain ps where ps:
        "polls (trace w') = polls (trace (delay_ms config w1 RETRY_DELAY_MS)) @ ps"
        "buffer' = buffer @ bytes_polled ps"
        "retries + 1 + int (empty_polls ps) \<le> max (retries + 1) max_retries"
        "int (length buffer') \<le> max (int (length buffer)) sz"
        "\<not> (int (length buffer') < sz \<and> retries + 1 + int (empty_polls ps) < max_retries)"
        "delays (trace w') = delays (trace (delay_ms config w1 RETRY_DELAY_MS))
             @ (if delay_function config = None then []
                else replicate (empty_polls ps) RETRY_DELAY_MS)"
        "written (trace w') = written (trace (delay_ms config w1 RETRY_DELAY_MS))"
        "bauds_initialized (trace w') = bauds_initialized (trace (delay_ms config w1 RETRY_DELAY_MS))"
        by blast
      show ?thesis
        using ps True empty tr
        by (intro exI [of _ "byte # ps"]) (auto simp: empty_polls_def bytes_polled_def)
    next
      case got: False
      with "1.prems" True f cr have room: "length buffer < cap"
        by (auto simp: read_loop.simps split: if_splits)
      from "1.prems" True f cr got room
      have rec: "read_loop config cap sz max_retries (buffer @ [char_of byte]) retries w1
                   = Inr (buffer', w')"
        by (simp add: read_loop.simps)
      from "1.IH"(2) [OF True f cr [symmetric] got room rec]
      obtain ps where ps:
        "polls (trace w') = polls (trace w1) @ ps"
        "buffer' = (buffer @ [char_of byte]) @ bytes_polled ps"
        "retries + int (empty_polls ps) \<le> max retries max_retries"
        "int (length buffer') \<le> max (int (length (buffer @ [char_of byte]))) sz"
        "\<not> (int (length buffer') < sz \<and> retries + int (empty_polls ps) < max_retries)"
        "delays (trace w') = delays (trace w1)
             @ (if delay_function config = None then []
                else replicate (empty_polls ps) RETRY_DELAY_MS)"
        "written (trace w') = written (trace w1)"
        "bauds_initialized (trace w') = bauds_initialized (trace w1)"
        by blast
      show ?thesis
        using ps True got tr
        by (intro exI [of _ "byte # ps"]) (auto simp: empty_polls_def bytes_polled_def)
    qed
  qed
qed

lemma read_loop_returns:
  "read_function config = Some f \<Longrightarrow> sz \<le> int cap
   \<Longrightarrow> \<exists>r. read_loop config cap sz max_retries buffer retries w = Inr r"
proof (induction config cap sz max_retries buffer retries w rule: read_loop.induct)
  case (1 config cap sz max_retries buffer retries w)
  show ?case
  proof (cases "int (length buffer) < sz \<and> retries < max_retries")
    case False
    then show ?thesis by (subst read_loop.simps) auto
  next
    case True
    obtain byte w1 where cr: "call_read f w = (byte, w1)"
      by (cases "call_read f w")
    show ?thesis
    proof (cases "byte = - 1")
      case empty: True
      from "1.IH"(1) [OF True "1.prems"(1) cr [symmetric] empty "1.prems"]
      show ?thesis using True "1.prems" cr empty
        by (subst read_loop.simps) simp
    next
      case got: False
      from True "1.prems" have room: "length buffer < cap" by simp
      from "1.IH"(2) [OF True "1.prems"(1) cr [symmetric] got room "1.prems"]
      show ?thesis using True "1.prems" cr got room
        by (subst read_loop.simps) simp
    qed
  qed
qed

text \<open>
  C4. With a read function and a buffer of at least \<open>sz\<close> bytes, \<open>read\<close> returns, for every
  \<open>sz\<close> and \<open>max_retries\<close>. Of the polls it made, those that found no byte are at most
  \<open>max_retries\<close> over the whole call (a byte received resets nothing), each followed by
  one delay of \<open>RETRY_DELAY_MS\<close> when there is a delay function; the bytes returned are
  those of the other polls, in order, at most \<open>sz\<close> of them and possibly none; and at the
  return either \<open>sz\<close> bytes are there or the retries are used up.
\<close>

theorem read_bounded:
  assumes "read_function config = Some f" and "sz \<le> int cap"
  shows "\<exists>buffer w' ps.
           read config w cap sz max_retries = Inr (buffer, w')
         \<and> polls (trace w') = polls (trace w) @ ps
         \<and> buffer = bytes_polled ps
         \<and> int (empty_polls ps) \<le> max 0 max_retries
         \<and> int (length buffer) \<le> max 0 sz
         \<and> \<not> (int (length buffer) < sz \<and> int (empty_polls ps) < max_retries)
         \<and> delays (trace w') = delays (trace w)
              @ (if delay_function config = None then []
                 else replicate (empty_polls ps) RETRY_DELAY_MS)"
proof -
  from read_loop_returns [OF assms] obtain buffer w'
    where r: "read_loop config cap sz max_retries [] 0 w = Inr (buffer, w')"
    by (metis surj_pair)
  from read_loop_trace [OF r] r show ?thesis
    by (auto simp: read_def)
qed

theorem read_bounded_witness:
  "read_function (scripted_config AT_PLATFORM_XBEE) = Some scripted_read \<and> (5::int) \<le> int 8
   \<and> (\<exists>buffer w'.
         read (scripted_config AT_PLATFORM_XBEE) (start [67, - 1, 77, - 1, - 1, 68, 69]) 8 5 3
           = Inr (buffer, w')
       \<and> buffer = ''CM'' 
       \<and> polls (trace w') = [67, - 1, 77, - 1, - 1]
       \<and> delays (trace w') = [50, 50, 50])"
proof -
  have h1: "read_function (scripted_config AT_PLATFORM_XBEE) = Some scripted_read"
    by (simp add: scripted_config_def)
  have h2: "(5::int) \<le> int 8" by simp
  have c: "char_of (67::int) = CHR ''C''" "char_of (77::int) = CHR ''M''" by code_simp+
  from read_bounded [OF h1 h2, of "start [67, - 1, 77, - 1, - 1, 68, 69]" 3] h1 h2 c
  show ?thesis
    by (simp add: read_def read_loop.simps scripted_config_def start_def call_read_def
      scripted_read_def delay_ms_def RETRY_DELAY_MS_def call_delay_def bytes_polled_def
      empty_polls_def)
qed

subsection \<open>One request and its response\<close>

lemma strlen_arr_Inr:
  "strlen_arr a = Inr n \<Longrightarrow> n < length a \<and> take n a = string_of a \<and> n = length (string_of a)"
  by (induction a arbitrary: n) (auto simp: string_of_def split: if_splits sum.splits)

lemma strlen_arr_returns:
  "NUL \<in> set a \<Longrightarrow> strlen_arr a = Inr (length (string_of a))"
  by (induction a) (auto simp: string_of_def)

lemma string_of_no_NUL: "NUL \<notin> set (string_of a)"
  by (auto simp: string_of_def dest: set_takeWhileD)

lemma write_loop_trace:
  "0 \<le> i \<Longrightarrow> write_loop f (Some a) sz i w = Inr w'
   \<Longrightarrow> written (trace w') = written (trace w) @ drop (nat i) (take (nat sz) a)
     \<and> bauds_initialized (trace w') = bauds_initialized (trace w)"
proof (induction f "Some a" sz i w rule: write_loop.induct)
  case (1 f sz i w)
  show ?case
  proof (cases "i < sz")
    case False
    with "1.prems" show ?thesis by (simp add: write_loop.simps)
  next
    case True
    with "1.prems" have inb: "0 \<le> i \<and> nat i < length a"
      by (auto simp: write_loop.simps split: if_splits)
    with "1.prems" True
    have rec: "write_loop f (Some a) sz (i + 1) (call_write f (a ! nat i) w) = Inr w'"
      by (simp add: write_loop.simps)
    have "0 \<le> i + 1" using inb by simp
    from "1.hyps" [OF True refl inb this rec]
    have ih: "written (trace w') = written (trace w) @ [a ! nat i] @ drop (nat (i + 1)) (take (nat sz) a)"
      "bauds_initialized (trace w') = bauds_initialized (trace w)"
      by simp_all
    have "nat i < length (take (nat sz) a)" using inb True by simp
    then have "drop (nat i) (take (nat sz) a)
        = take (nat sz) a ! nat i # drop (Suc (nat i)) (take (nat sz) a)"
      by (rule Cons_nth_drop_Suc [symmetric])
    moreover have "take (nat sz) a ! nat i = a ! nat i" using inb True by simp
    moreover have "nat (i + 1) = Suc (nat i)" using inb by arith
    ultimately show ?thesis using ih by simp
  qed
qed

lemma write_loop_returns:
  "0 \<le> i \<Longrightarrow> sz \<le> int (length a) \<Longrightarrow> \<exists>w'. write_loop f (Some a) sz i w = Inr w'"
proof (induction f "Some a" sz i w rule: write_loop.induct)
  case (1 f sz i w)
  show ?case
  proof (cases "i < sz")
    case False
    then show ?thesis by (simp add: write_loop.simps)
  next
    case True
    with "1.prems" have inb: "0 \<le> i \<and> nat i < length a" by auto
    have "0 \<le> i + 1" using inb by simp
    from "1.hyps" [OF True refl inb this "1.prems"(2)] True inb
    show ?thesis by (subst write_loop.simps) simp
  qed
qed

lemma write_bytes_trace:
  "write_bytes config w (Some a) sz = Inr w'
   \<Longrightarrow> written (trace w') = written (trace w)
         @ (if write_function config = None then [] else take (nat sz) a)
     \<and> bauds_initialized (trace w') = bauds_initialized (trace w)"
  using write_loop_trace [of 0 _ a sz w w']
  by (auto simp: write_bytes_def split: option.splits)

lemma write_bytes_returns:
  "sz \<le> int (length a) \<Longrightarrow> \<exists>w'. write_bytes config w (Some a) sz = Inr w'"
  using write_loop_returns [of 0 sz a _ w]
  by (auto simp: write_bytes_def split: option.splits)

lemma read_trace:
  "read config w cap sz max_retries = Inr (buffer, w')
   \<Longrightarrow> written (trace w') = written (trace w)
     \<and> bauds_initialized (trace w') = bauds_initialized (trace w)
     \<and> int (length buffer) \<le> max 0 sz"
  using read_loop_trace [of config cap sz max_retries "[]" 0 w buffer w']
  by (auto simp: read_def)

lemma check_response_trace:
  "check_response config w response response_length expected expected_length = Inr (ok, w')
   \<Longrightarrow> written (trace w') = written (trace w)
     \<and> bauds_initialized (trace w') = bauds_initialized (trace w)"
  by (auto simp: check_response_def Let_def split: sum.splits bool.splits if_splits)

lemma command_request_trace:
  assumes "command_request config w (Some cmd) expected = Inr (ok, w')"
  shows "written (trace w') = written (trace w)
           @ (if write_function config = None then [] else string_of cmd)"
    and "bauds_initialized (trace w') = bauds_initialized (trace w)"
proof -
  from assms obtain n w1 e m response w3 where
    n: "strlen_arr cmd = Inr n" and
    w1: "write_bytes config w (Some cmd) (int n) = Inr w1" and
    r: "read config (delay_ms config w1 (response_delay_ms (platform config)))
          MAX_RESPONSE_LENGTH (int m) MAX_RETRIES = Inr (response, w3)" and
    c: "check_response config w3 response (int (length response)) e (int m) = Inr (ok, w')"
    by (auto simp: command_request_def strlen_def Let_def split: sum.splits option.splits)
  from strlen_arr_Inr [OF n] have "take n cmd = string_of cmd" by blast
  with write_bytes_trace [OF w1] read_trace [OF r] check_response_trace [OF c]
  show "written (trace w') = written (trace w)
           @ (if write_function config = None then [] else string_of cmd)"
    and "bauds_initialized (trace w') = bauds_initialized (trace w)"
    by simp_all
qed

lemma read_returns:
  assumes "read_function config = Some f" and "sz \<le> int cap"
  shows "\<exists>buffer w'. read config w cap sz max_retries = Inr (buffer, w')"
  using read_loop_returns [OF assms, of max_retries "[]" 0 w] by (simp add: read_def)

lemma check_response_returns:
  assumes "n < length expected" and "NUL \<notin> set (take n expected)"
  shows "\<exists>ok w'. check_response config w response (int (length response)) expected (int n)
           = Inr (ok, w')"
proof (cases "int (length response) = int n")
  case False
  from check_response_mismatch [OF this] show ?thesis by blast
next
  case True
  with assms have "strncmp_int response expected (int n)
      = Inr (take n response = take n expected)"
    by (simp add: strncmp_int_nonneg strncmp_zero_take)
  from check_response_same_length [OF this, of config w] True show ?thesis
    by metis
qed

lemma command_request_returns:
  assumes rf: "read_function config = Some f"
    and cmd: "NUL \<in> set cmd" and e: "NUL \<in> set e"
    and len: "length (string_of e) \<le> MAX_RESPONSE_LENGTH"
  shows "\<exists>ok w'. command_request config w (Some cmd) (Some e) = Inr (ok, w')"
proof -
  let ?n = "length (string_of cmd)" and ?m = "length (string_of e)"
  have n: "strlen_arr cmd = Inr ?n" using cmd by (rule strlen_arr_returns)
  have m: "strlen_arr e = Inr ?m" using e by (rule strlen_arr_returns)
  from strlen_arr_Inr [OF n] have "int ?n \<le> int (length cmd)" by simp
  from write_bytes_returns [OF this] obtain w1
    where w1: "write_bytes config w (Some cmd) (int ?n) = Inr w1" by blast
  let ?w2 = "delay_ms config w1 (response_delay_ms (platform config))"
  from len have "int ?m \<le> int MAX_RESPONSE_LENGTH" by simp
  from read_returns [OF rf this, of ?w2 MAX_RETRIES] obtain response w3
    where r: "read config ?w2 MAX_RESPONSE_LENGTH (int ?m) MAX_RETRIES = Inr (response, w3)"
    by blast
  from strlen_arr_Inr [OF m] string_of_no_NUL [of e]
  have "?m < length e" "NUL \<notin> set (take ?m e)" by auto
  from check_response_returns [OF this, of config w3 response]
  obtain b w' where
    "check_response config w3 response (int (length response)) e (int ?m) = Inr (b, w')"
    by blast
  with n w1 m r show ?thesis
    by (simp add: command_request_def strlen_def)
qed

subsection \<open>Entering command mode twice\<close>

lemma enter_command_mode_result:
  "at_commander_enter_command_mode V config w = Inr (ok, c1, w1) \<Longrightarrow> ok = connected c1"
  by (auto simp: at_commander_enter_command_mode_def split: if_splits sum.splits)

text \<open>
  C5. A call of \<open>at_commander_enter_command_mode\<close> that returns true leaves the session
  connected; and on a connected session the function returns true at once, with the
  configuration as it was and no call to the transport: no write, no poll, no delay, no
  baud rate set. All it does is log a message, when there is a log function.
\<close>

theorem enter_command_mode_idempotent:
  "(at_commander_enter_command_mode V c0 w0 = Inr (True, config, w) \<longrightarrow> connected config)
   \<and> (connected config \<longrightarrow>
        at_commander_enter_command_mode V config w
          = Inr (True, config, debug config w ''Already in command mode'' [])
        \<and> transport (trace (debug config w ''Already in command mode'' []))
          = transport (trace w))"
  using enter_command_mode_result [of V c0 w0 True config w]
  by (simp add: at_commander_enter_command_mode_def)

lemma enter_rn42_second_candidate:
  "(case at_commander_enter_command_mode [1200, 9600, 19200]
           (scripted_config (AT_PLATFORM_RN42 100))
           (start [- 1, - 1, - 1, 67, 77, 68, 13, 10]) of
      Inl f \<Rightarrow> False
    | Inr (ok, c1, w1) \<Rightarrow>
        ok \<and> baud c1 = 9600 \<and> bauds_initialized (trace w1) = [1200, 9600]
        \<and> written (trace w1) = ''$$$$$$'')"
  by code_simp

theorem enter_command_mode_idempotent_witness:
  "\<exists>c1 w1 w2.
      at_commander_enter_command_mode [1200, 9600, 19200]
        (scripted_config (AT_PLATFORM_RN42 100)) (start [- 1, - 1, - 1, 67, 77, 68, 13, 10])
        = Inr (True, c1, w1)
    \<and> connected c1
    \<and> at_commander_enter_command_mode [1200, 9600, 19200] c1 w1 = Inr (True, c1, w2)
    \<and> transport (trace w2) = transport (trace w1)"
proof -
  from enter_rn42_second_candidate obtain c1 w1 where
    e: "at_commander_enter_command_mode [1200, 9600, 19200]
        (scripted_config (AT_PLATFORM_RN42 100)) (start [- 1, - 1, - 1, 67, 77, 68, 13, 10])
        = Inr (True, c1, w1)"
    by (auto split: sum.splits)
  from enter_command_mode_idempotent [of "[1200, 9600, 19200]"
      "scripted_config (AT_PLATFORM_RN42 100)" "start [- 1, - 1, - 1, 67, 77, 68, 13, 10]"
      c1 w1] e
  show ?thesis by auto
qed

subsection \<open>Storing the settings\<close>

text \<open>
  C7. When the platform has no store-settings descriptor (its request or its expected
  response is \<^verbatim>\<open>NULL\<close>), \<open>at_commander_store_settings\<close> returns false and calls nothing:
  the world is as it was. When it has one, the function is one \<open>command_request\<close> of the
  descriptor: it returns the boolean of that request, the request is written once, and
  the function makes no call to the transport of its own.
\<close>

theorem store_settings_cases:
  "(request_format (store_settings_command (platform config)) = None
      \<or> expected_response (store_settings_command (platform config)) = None
    \<longrightarrow> at_commander_store_settings config w = Inr (False, w))
   \<and> (request_format (store_settings_command (platform config)) = Some r
      \<and> expected_response (store_settings_command (platform config)) = Some e
    \<longrightarrow> (case command_request config w (Some r) (Some e) of
           Inl f \<Rightarrow> at_commander_store_settings config w = Inl f
         | Inr (ok, w1) \<Rightarrow>
             (\<exists>w2. at_commander_store_settings config w = Inr (ok, w2)
                \<and> transport (trace w2) = transport (trace w1)
                \<and> written (trace w2) = written (trace w)
                     @ (if write_function config = None then [] else string_of r))))"
proof (intro conjI impI)
  assume "request_format (store_settings_command (platform config)) = None
      \<or> expected_response (store_settings_command (platform config)) = None"
  then show "at_commander_store_settings config w = Inr (False, w)"
    by (auto simp: at_commander_store_settings_def)
next
  assume d: "request_format (store_settings_command (platform config)) = Some r
      \<and> expected_response (store_settings_command (platform config)) = Some e"
  show "case command_request config w (Some r) (Some e) of
           Inl f \<Rightarrow> at_commander_store_settings config w = Inl f
         | Inr (ok, w1) \<Rightarrow>
             (\<exists>w2. at_commander_store_settings config w = Inr (ok, w2)
                \<and> transport (trace w2) = transport (trace w1)
                \<and> written (trace w2) = written (trace w)
                     @ (if write_function config = None then [] else string_of r))"
  proof (cases "command_request config w (Some r) (Some e)")
    case (Inl f)
    with d show ?thesis by (simp add: at_commander_store_settings_def)
  next
    case (Inr p)
    obtain ok w1 where p: "p = (ok, w1)" by (cases p)
    from Inr p command_request_trace(1) [of config w r "Some e" ok w1]
    have "written (trace w1) = written (trace w)
            @ (if write_function config = None then [] else string_of r)"
      by simp
    with Inr p d show ?thesis
      by (simp add: at_commander_store_settings_def)
  qed
qed

lemma store_request_xbee:
  "(case command_request (scripted_config AT_PLATFORM_XBEE) (start [79, 75, 13, 10])
           (literal (''ATWR'' @ CRLF)) (literal (''OK'' @ CRLF)) of
      Inl f \<Rightarrow> False
    | Inr (ok, w1) \<Rightarrow> ok)"
  by code_simp

theorem store_settings_cases_witness:
  "at_commander_store_settings (scripted_config (AT_PLATFORM_RN42 100)) (start [])
     = Inr (False, start [])
   \<and> (\<exists>w2. at_commander_store_settings (scripted_config AT_PLATFORM_XBEE)
              (start [79, 75, 13, 10]) = Inr (True, w2)
          \<and> written (trace w2) = ''ATWR'' @ CRLF)"
proof -
  let ?r = "''ATWR'' @ CRLF @ [NUL]" and ?e = "''OK'' @ CRLF @ [NUL]"
  have none: "request_format (store_settings_command
        (platform (scripted_config (AT_PLATFORM_RN42 100)))) = None"
    by (simp add: scripted_config_def AT_PLATFORM_RN42_def)
  have some: "request_format (store_settings_command
        (platform (scripted_config AT_PLATFORM_XBEE))) = Some ?r
      \<and> expected_response (store_settings_command
        (platform (scripted_config AT_PLATFORM_XBEE))) = Some ?e"
    by (simp add: scripted_config_def AT_PLATFORM_XBEE_def literal_def)
  from store_request_xbee obtain w1 where
    cr: "command_request (scripted_config AT_PLATFORM_XBEE) (start [79, 75, 13, 10])
           (Some ?r) (Some ?e) = Inr (True, w1)"
    by (auto simp: literal_def split: sum.splits)
  have s: "string_of ?r = ''ATWR'' @ CRLF"
    by (simp add: string_of_def CRLF_def NUL_def)
  from store_settings_cases [where config = "scripted_config (AT_PLATFORM_RN42 100)"
      and w = "start []"] none
  have a: "at_commander_store_settings (scripted_config (AT_PLATFORM_RN42 100)) (start [])
     = Inr (False, start [])"
    by blast
  from store_settings_cases [where config = "scripted_config AT_PLATFORM_XBEE"
      and r = ?r and e = ?e and w = "start [79, 75, 13, 10]"] some cr s
  have b: "\<exists>w2. at_commander_store_settings (scripted_config AT_PLATFORM_XBEE)
              (start [79, 75, 13, 10]) = Inr (True, w2)
          \<and> written (trace w2) = ''ATWR'' @ CRLF"
    by (auto simp: scripted_config_def start_def)
  from a b show ?thesis by blast
qed

subsection \<open>Leaving command mode\<close>

lemma exit_command_mode_cases:
  "\<not> connected config \<Longrightarrow>
     at_commander_exit_command_mode config w
       = Inr (True, config, debug config w ''Not in command mode'' [])"
  "connected config \<Longrightarrow>
     command_request config w
       (request_format (exit_command_mode_command (platform config)))
       (expected_response (exit_command_mode_command (platform config))) = Inr (True, w1) \<Longrightarrow>
     at_commander_exit_command_mode config w
       = Inr (True, config\<lparr>connected := False\<rparr>, debug config w1 ''Switched back to data mode'' [])"
  "connected config \<Longrightarrow>
     command_request config w
       (request_format (exit_command_mode_command (platform config)))
       (expected_response (exit_command_mode_command (platform config))) = Inr (False, w1) \<Longrightarrow>
     at_commander_exit_command_mode config w
       = Inr (False, config, debug config w1 ''Unable to exit command mode'' [])"
  by (simp_all add: at_commander_exit_command_mode_def)

lemma exit_command_mode_null_descriptor:
  "connected config \<Longrightarrow> request_format (exit_command_mode_command (platform config)) = None
   \<Longrightarrow> at_commander_exit_command_mode config w = Inl NullDereference"
  by (simp add: at_commander_exit_command_mode_def command_request_def strlen_def)

text \<open>
  C6 holds for a platform with an exit descriptor (\<open>exit_command_mode_cases\<close>). The
  function does not test the descriptor for \<^verbatim>\<open>NULL\<close>, as \<open>at_commander_store_settings\<close>
  does: on a connected session of the XBee platform of the file, whose exit descriptor is
  \<^verbatim>\<open>{NULL, NULL}\<close>, it calls \<^verbatim>\<open>strlen(NULL)\<close> and returns nothing.
\<close>

theorem exit_command_mode_xbee_fault:
  "at_commander_exit_command_mode ((scripted_config AT_PLATFORM_XBEE)\<lparr>connected := True\<rparr>) w
     = Inl NullDereference"
  by (rule exit_command_mode_null_descriptor)
     (simp_all add: scripted_config_def AT_PLATFORM_XBEE_def)

subsection \<open>Rebooting\<close>

lemma reboot_trace:
  assumes "at_commander_enter_command_mode V config w = Inr (True, c1, w1)"
    and "request_format (reboot_command (platform c1)) = Some a"
    and "at_commander_reboot V config w = Inr (ok, c2, w2)"
  shows "ok \<and> c2 = c1
     \<and> written (trace w2) = written (trace w1)
          @ (if write_function c1 = None then [] else take 5 a)"
proof -
  from assms obtain w3 where
    w3: "write_bytes c1 w1 (Some a) 5 = Inr w3" and
    r: "ok" "c2 = c1" "w2 = debug c1 w3 ''Rebooting RN-42'' []"
    by (auto simp: at_commander_reboot_def split: sum.splits)
  from write_bytes_trace [OF w3] r show ?thesis by simp
qed

lemma reboot_not_connected:
  "at_commander_enter_command_mode V config w = Inr (False, c1, w1)
   \<Longrightarrow> \<exists>w2. at_commander_reboot V config w = Inr (False, c1, w2)
          \<and> transport (trace w2) = transport (trace w1)"
  by (simp add: at_commander_reboot_def)

text \<open>
  C8. After a successful entry \<open>at_commander_reboot\<close> writes five bytes from the reboot
  request, whatever its length (\<open>reboot_trace\<close>): the request itself only when it has
  five characters, as that of the RN-42. On the XBee platform of the file, whose reboot
  request is \<^verbatim>\<open>NULL\<close>, it reads through the null pointer; of a request of six characters
  it writes the first five; of a request of two it reads past the terminator.
\<close>

theorem reboot_writes_five_bytes:
  "(case at_commander_reboot [1200, 9600]
           ((scripted_config AT_PLATFORM_XBEE)\<lparr>connected := True\<rparr>) (start []) of
        Inl f \<Rightarrow> f = NullDereference
      | Inr r \<Rightarrow> False)
   \<and> (case at_commander_reboot [1200, 9600] (xbee_with_reboot (''ATFR'' @ CRLF)) (start []) of
        Inl f \<Rightarrow> False
      | Inr (ok, c1, w1) \<Rightarrow> ok \<and> written (trace w1) = ''ATFR'' @ [CHR 0x0D])
   \<and> (case at_commander_reboot [1200, 9600] (xbee_with_reboot ''FR'') (start []) of
        Inl f \<Rightarrow> f = OutOfBounds
      | Inr r \<Rightarrow> False)"
  by code_simp

subsection \<open>Entering command mode\<close>

lemma initialize_baud_result:
  "initialize_baud config w b = (r, c1, w1)
   \<Longrightarrow> c1 = config\<lparr>baud := (if baud_rate_initializer config = None then baud config else b)\<rparr>
     \<and> bauds_initialized (trace w1) = bauds_initialized (trace w)
          @ (if baud_rate_initializer config = None then [] else [b])
     \<and> written (trace w1) = written (trace w)"
  by (auto simp: initialize_baud_def split: option.splits)

lemma probe_once_result:
  assumes "probe_once config w b = Inr (ok, c1, w1)"
  shows "c1 = config\<lparr>baud := (if baud_rate_initializer config = None then baud config else b)\<rparr>"
    and "bauds_initialized (trace w1) = bauds_initialized (trace w)
          @ (if baud_rate_initializer config = None then [] else [b])"
    and "request_format (enter_command_mode_command (platform config)) = Some req
         \<Longrightarrow> written (trace w1) = written (trace w)
              @ (if write_function config = None then [] else string_of req)"
proof -
  obtain r c0 w0 where i: "initialize_baud config w b = (r, c0, w0)"
    by (cases "initialize_baud config w b")
  note ib = initialize_baud_result [OF i]
  from assms i have c: "c1 = c0" and
    cr: "command_request c0 (debug c0 w0 ''Attempting to enter command mode'' [])
           (request_format (enter_command_mode_command (platform c0)))
           (expected_response (enter_command_mode_command (platform c0))) = Inr (ok, w1)"
    by (auto simp: probe_once_def split: sum.splits)
  from ib c show "c1 = config\<lparr>baud :=
      (if baud_rate_initializer config = None then baud config else b)\<rparr>"
    by simp
  from ib have p: "platform c0 = platform config" "write_function c0 = write_function config"
    by simp_all
  {
    fix cmd assume "request_format (enter_command_mode_command (platform config)) = Some cmd"
    with cr p command_request_trace [of c0 _ cmd _ ok w1] ib
    have "written (trace w1) = written (trace w)
              @ (if write_function config = None then [] else string_of cmd)"
      "bauds_initialized (trace w1) = bauds_initialized (trace w)
          @ (if baud_rate_initializer config = None then [] else [b])"
      by simp_all
  } note tr = this
  from cr p obtain cmd where
    "request_format (enter_command_mode_command (platform config)) = Some cmd"
    by (cases "request_format (enter_command_mode_command (platform config))")
       (auto simp: command_request_def strlen_def)
  from tr(2) [OF this] show "bauds_initialized (trace w1) = bauds_initialized (trace w)
          @ (if baud_rate_initializer config = None then [] else [b])" .
  show "request_format (enter_command_mode_command (platform config)) = Some req
         \<Longrightarrow> written (trace w1) = written (trace w)
              @ (if write_function config = None then [] else string_of req)"
    by (rule tr(1))
qed

lemma failed_probes_result:
  "failed_probes config w bs = Some (cm, wm)
   \<Longrightarrow> cm = config\<lparr>baud := (if baud_rate_initializer config = None \<or> bs = []
                              then baud config else last bs)\<rparr>
     \<and> bauds_initialized (trace wm) = bauds_initialized (trace w)
          @ (if baud_rate_initializer config = None then [] else bs)
     \<and> (request_format (enter_command_mode_command (platform config)) = Some req
          \<longrightarrow> written (trace wm) = written (trace w)
                @ (if write_function config = None then []
                   else concat (replicate (length bs) (string_of req))))"
proof (induction bs arbitrary: config w)
  case Nil
  then show ?case by simp
next
  case (Cons b bs)
  from Cons.prems obtain c1 w1 where
    p: "probe_once config w b = Inr (False, c1, w1)" and
    f: "failed_probes c1 w1 bs = Some (cm, wm)"
    by (auto split: sum.splits if_splits)
  note po = probe_once_result [OF p]
  from po(1) have same: "baud_rate_initializer c1 = baud_rate_initializer config"
    "write_function c1 = write_function config" "platform c1 = platform config"
    by simp_all
  from Cons.IH [OF f] same have
    ih1: "cm = c1\<lparr>baud := (if baud_rate_initializer config = None \<or> bs = []
                              then baud c1 else last bs)\<rparr>" and
    ih2: "bauds_initialized (trace wm) = bauds_initialized (trace w1)
          @ (if baud_rate_initializer config = None then [] else bs)" and
    ih3: "request_format (enter_command_mode_command (platform config)) = Some req
          \<longrightarrow> written (trace wm) = written (trace w1)
                @ (if write_function config = None then []
                   else concat (replicate (length bs) (string_of req)))"
    by simp_all
  have a: "cm = config\<lparr>baud := (if baud_rate_initializer config = None \<or> b # bs = []
                              then baud config else last (b # bs))\<rparr>"
    by (subst ih1, subst (1 2) po(1)) simp
  have b: "bauds_initialized (trace wm) = bauds_initialized (trace w)
          @ (if baud_rate_initializer config = None then [] else b # bs)"
    by (simp add: ih2 po(2))
  have c: "request_format (enter_command_mode_command (platform config)) = Some req
          \<longrightarrow> written (trace wm) = written (trace w)
                @ (if write_function config = None then []
                   else concat (replicate (length (b # bs)) (string_of req)))"
    using ih3 po(3) by simp
  from a b c show ?case by blast
qed

lemma probe_bauds_unfold:
  "probe_bauds config w (b # bs) =
     (case probe_once config w b of
        Inl f \<Rightarrow> Inl f
      | Inr (ok, c1, w1) \<Rightarrow>
          if ok then Inr (c1\<lparr>connected := True\<rparr>, w1) else probe_bauds c1 w1 bs)"
  by (simp add: probe_once_def split: prod.splits sum.splits)

lemma probe_bauds_chain:
  "probe_bauds config w bs = Inr (c', w')
   \<Longrightarrow> (\<exists>k cm wm c1. k < length bs
          \<and> failed_probes config w (take k bs) = Some (cm, wm)
          \<and> probe_once cm wm (bs ! k) = Inr (True, c1, w')
          \<and> c' = c1\<lparr>connected := True\<rparr>)
     \<or> failed_probes config w bs = Some (c', w')"
proof (induction bs arbitrary: config w)
  case Nil
  then show ?case by simp
next
  case (Cons b bs)
  from Cons.prems obtain ok c1 w1 where
    p: "probe_once config w b = Inr (ok, c1, w1)"
    by (auto simp: probe_bauds_unfold simp del: probe_bauds.simps split: sum.splits)
  show ?case
  proof (cases ok)
    case True
    with Cons.prems p have "c' = c1\<lparr>connected := True\<rparr>" "w' = w1"
      by (simp_all add: probe_bauds_unfold del: probe_bauds.simps)
    with p True have "0 < length (b # bs)
          \<and> failed_probes config w (take 0 (b # bs)) = Some (config, w)
          \<and> probe_once config w ((b # bs) ! 0) = Inr (True, c1, w')
          \<and> c' = c1\<lparr>connected := True\<rparr>"
      by simp
    then show ?thesis by blast
  next
    case False
    with Cons.prems p have rec: "probe_bauds c1 w1 bs = Inr (c', w')"
      by (simp add: probe_bauds_unfold del: probe_bauds.simps)
    from Cons.IH [OF rec] show ?thesis
    proof
      assume "\<exists>k cm wm c2. k < length bs
          \<and> failed_probes c1 w1 (take k bs) = Some (cm, wm)
          \<and> probe_once cm wm (bs ! k) = Inr (True, c2, w')
          \<and> c' = c2\<lparr>connected := True\<rparr>"
      then obtain k cm wm c2 where k: "k < length bs"
          "failed_probes c1 w1 (take k bs) = Some (cm, wm)"
          "probe_once cm wm (bs ! k) = Inr (True, c2, w')"
          "c' = c2\<lparr>connected := True\<rparr>"
        by blast
      with p False have "Suc k < length (b # bs)
          \<and> failed_probes config w (take (Suc k) (b # bs)) = Some (cm, wm)
          \<and> probe_once cm wm ((b # bs) ! Suc k) = Inr (True, c2, w')
          \<and> c' = c2\<lparr>connected := True\<rparr>"
        by simp
      then show ?thesis by blast
    next
      assume "failed_probes c1 w1 bs = Some (c', w')"
      with p False show ?thesis by simp
    qed
  qed
qed

lemma concat_replicate_commute: "concat (replicate k x) @ x = x @ concat (replicate k x)"
  by (induction k) simp_all

lemma probe_bauds_not_connected:
  assumes nc: "\<not> connected config" and pb: "probe_bauds config w V = Inr (c1, wp)"
  shows "\<exists>k cm wm. k \<le> length V
      \<and> failed_probes config w (take k V) = Some (cm, wm)
      \<and> c1 = config\<lparr>baud := baud c1, connected := connected c1\<rparr>
      \<and> (connected c1 \<longrightarrow> k < length V
            \<and> (\<exists>c2. probe_once cm wm (V ! k) = Inr (True, c2, wp)
                     \<and> c1 = c2\<lparr>connected := True\<rparr>)
            \<and> baud c1 = (if baud_rate_initializer config = None then baud config else V ! k))
      \<and> (\<not> connected c1 \<longrightarrow> k = length V \<and> c1 = cm \<and> wp = wm)
      \<and> bauds_initialized (trace wp) = bauds_initialized (trace w)
           @ (if baud_rate_initializer config = None then []
              else take (if connected c1 then Suc k else k) V)
      \<and> (\<forall>req. request_format (enter_command_mode_command (platform config)) = Some req
            \<longrightarrow> written (trace wp) = written (trace w)
                  @ (if write_function config = None then []
                     else concat (replicate (if connected c1 then Suc k else k)
                                    (string_of req))))"
  using probe_bauds_chain [OF pb]
proof
  assume "\<exists>k cm wm c2. k < length V
          \<and> failed_probes config w (take k V) = Some (cm, wm)
          \<and> probe_once cm wm (V ! k) = Inr (True, c2, wp)
          \<and> c1 = c2\<lparr>connected := True\<rparr>"
  then obtain k cm wm c2 where k: "k < length V"
      and fp: "failed_probes config w (take k V) = Some (cm, wm)"
      and po: "probe_once cm wm (V ! k) = Inr (True, c2, wp)"
      and c1: "c1 = c2\<lparr>connected := True\<rparr>"
    by blast
  note f = failed_probes_result [OF fp]
  note p = probe_once_result [OF po]
  from f have cm: "cm = config\<lparr>baud := baud cm\<rparr>" by simp
  have same: "baud_rate_initializer cm = baud_rate_initializer config"
    "write_function cm = write_function config" "platform cm = platform config"
    by (subst cm, simp)+
  have conn: "connected c1" by (simp add: c1)
  have b: "baud c1 = (if baud_rate_initializer config = None then baud config else V ! k)"
    using f by (simp add: c1 p(1) same)
  have shape: "c1 = config\<lparr>baud := baud c1, connected := connected c1\<rparr>"
    by (subst (1 2 3) c1, subst (1 2 3) p(1), subst (1 2 3) cm) simp
  have tk: "take k V @ [V ! k] = take (Suc k) V"
    using k by (simp add: take_Suc_conv_app_nth)
  have bi: "bauds_initialized (trace wp) = bauds_initialized (trace w)
           @ (if baud_rate_initializer config = None then [] else take (Suc k) V)"
    using f p(2) tk by (simp add: same)
  have wr: "\<forall>req. request_format (enter_command_mode_command (platform config)) = Some req
            \<longrightarrow> written (trace wp) = written (trace w)
                  @ (if write_function config = None then []
                     else concat (replicate (Suc k) (string_of req)))"
  proof (intro allI impI)
    fix req
    assume r: "request_format (enter_command_mode_command (platform config)) = Some req"
    from failed_probes_result [OF fp, of req] r k
    have "written (trace wm) = written (trace w)
            @ (if write_function config = None then []
               else concat (replicate k (string_of req)))"
      by simp
    moreover from p(3) [of req] r same
    have "written (trace wp) = written (trace wm)
            @ (if write_function config = None then [] else string_of req)"
      by simp
    ultimately show "written (trace wp) = written (trace w)
                  @ (if write_function config = None then []
                     else concat (replicate (Suc k) (string_of req)))"
      by (simp add: concat_replicate_commute)
  qed
  from k fp po c1 conn b shape bi wr show ?thesis
    by (intro exI [of _ k] exI [of _ cm] exI [of _ wm]) auto
next
  assume fp: "failed_probes config w V = Some (c1, wp)"
  note f = failed_probes_result [OF fp]
  from f have shape0: "c1 = config\<lparr>baud := baud c1\<rparr>" by simp
  have conn: "\<not> connected c1" using nc by (subst shape0) simp
  have shape: "c1 = config\<lparr>baud := baud c1, connected := connected c1\<rparr>"
    using nc conn by (subst (1 2 3) shape0) simp
  have wr: "\<forall>req. request_format (enter_command_mode_command (platform config)) = Some req
            \<longrightarrow> written (trace wp) = written (trace w)
                  @ (if write_function config = None then []
                     else concat (replicate (length V) (string_of req)))"
    using failed_probes_result [OF fp] by blast
  from fp f conn shape wr show ?thesis
    by (intro exI [of _ "length V"] exI [of _ c1] exI [of _ wp]) auto
qed

lemma enter_command_mode_not_connected:
  assumes "\<not> connected config"
    and "at_commander_enter_command_mode V config w = Inr (ok, c', w')"
  shows "\<exists>wp. probe_bauds config w V = Inr (c', wp) \<and> ok = connected c'
      \<and> transport (trace w') = transport (trace wp)
      \<and> bauds_initialized (trace w') = bauds_initialized (trace wp)
      \<and> written (trace w') = written (trace wp)"
  using assms
  by (auto simp: at_commander_enter_command_mode_def split: sum.splits if_splits)

lemma command_request_issuable:
  assumes "read_function config = Some f" and "issuable cmd"
  shows "\<exists>ok w'. command_request config w (request_format cmd) (expected_response cmd)
           = Inr (ok, w')"
proof -
  from assms(2) obtain r e where
    "request_format cmd = Some r" "expected_response cmd = Some e"
    "NUL \<in> set r" "NUL \<in> set e" "length (string_of e) \<le> MAX_RESPONSE_LENGTH"
    by (auto simp: issuable_def split: option.splits)
  with command_request_returns [OF assms(1), of r e w] show ?thesis by simp
qed

lemma probe_bauds_returns:
  assumes "read_function config = Some f"
    and "issuable (enter_command_mode_command (platform config))"
  shows "\<exists>c' w'. probe_bauds config w V = Inr (c', w')"
  using assms
proof (induction V arbitrary: config w)
  case Nil
  then show ?case by simp
next
  case (Cons b V)
  obtain r c1 w1 where i: "initialize_baud config w b = (r, c1, w1)"
    by (cases "initialize_baud config w b")
  from initialize_baud_result [OF i] Cons.prems
  have same: "read_function c1 = Some f"
    "issuable (enter_command_mode_command (platform c1))"
    by simp_all
  from command_request_issuable [OF same]
  obtain ok w2 where
    cr: "command_request c1 (debug c1 w1 ''Attempting to enter command mode'' [])
           (request_format (enter_command_mode_command (platform c1)))
           (expected_response (enter_command_mode_command (platform c1))) = Inr (ok, w2)"
    by blast
  from Cons.IH [OF same, of w2] i cr show ?case
    by (cases ok) simp_all
qed

lemma enter_command_mode_returns:
  assumes "read_function config = Some f"
    and "issuable (enter_command_mode_command (platform config))"
  shows "\<exists>ok c' w'. at_commander_enter_command_mode V config w = Inr (ok, c', w')"
  using probe_bauds_returns [OF assms, of w V]
  by (auto simp: at_commander_enter_command_mode_def)

text \<open>
  C1, amended. On a session that is not connected, a call of
  \<open>at_commander_enter_command_mode\<close> that returns has probed the baud rates of the table in
  order, from the first: some \<open>k\<close> first ones failed one after the other, each probed once
  (\<open>failed_probes\<close>). The call does return when there is a read function and the enter
  descriptor can be issued. If the call returns true, the next rate \<open>V ! k\<close> is the first whose
  request succeeded, the loop stopped there (nothing was sent for the later rates), the
  session is connected, and the field \<open>baud\<close> holds that rate when there is a baud rate
  initializer and is unchanged when there is none. If the call returns false, every rate
  of the table failed and the session is not connected. In both cases the UART was set to
  exactly the rates probed, in order, and the enter request was written once for each.
\<close>

theorem enter_command_mode_probes:
  assumes "\<not> connected config"
  shows "(read_function config = Some f
        \<and> issuable (enter_command_mode_command (platform config))
      \<longrightarrow> (\<exists>ok c' w'. at_commander_enter_command_mode V config w = Inr (ok, c', w')))
   \<and> (at_commander_enter_command_mode V config w = Inr (ok, c', w')
      \<longrightarrow> (\<exists>k cm wm. k \<le> length V
      \<and> failed_probes config w (take k V) = Some (cm, wm)
      \<and> ok = connected c'
      \<and> c' = config\<lparr>baud := baud c', connected := ok\<rparr>
      \<and> (ok \<longrightarrow> k < length V
            \<and> (\<exists>c2 w2. probe_once cm wm (V ! k) = Inr (True, c2, w2)
                     \<and> c' = c2\<lparr>connected := True\<rparr>
                     \<and> transport (trace w') = transport (trace w2))
            \<and> baud c' = (if baud_rate_initializer config = None then baud config else V ! k))
      \<and> (\<not> ok \<longrightarrow> k = length V \<and> c' = cm \<and> transport (trace w') = transport (trace wm))
      \<and> bauds_initialized (trace w') = bauds_initialized (trace w)
           @ (if baud_rate_initializer config = None then []
              else take (if ok then Suc k else k) V)
      \<and> (\<forall>req. request_format (enter_command_mode_command (platform config)) = Some req
            \<longrightarrow> written (trace w') = written (trace w)
                  @ (if write_function config = None then []
                     else concat (replicate (if ok then Suc k else k) (string_of req))))))"
proof (intro conjI impI)
  assume "read_function config = Some f
        \<and> issuable (enter_command_mode_command (platform config))"
  then show "\<exists>ok c' w'. at_commander_enter_command_mode V config w = Inr (ok, c', w')"
    by (blast intro: enter_command_mode_returns)
next
  assume ret: "at_commander_enter_command_mode V config w = Inr (ok, c', w')"
  from enter_command_mode_not_connected [OF assms ret] obtain wp where
    pb: "probe_bauds config w V = Inr (c', wp)" and ok: "ok = connected c'" and
    tr: "transport (trace w') = transport (trace wp)"
      "bauds_initialized (trace w') = bauds_initialized (trace wp)"
      "written (trace w') = written (trace wp)"
    by blast
  from probe_bauds_not_connected [OF assms pb] obtain k cm wm where
    k: "k \<le> length V" "failed_probes config w (take k V) = Some (cm, wm)"
      "c' = config\<lparr>baud := baud c', connected := connected c'\<rparr>"
      "connected c' \<longrightarrow> k < length V
            \<and> (\<exists>c2. probe_once cm wm (V ! k) = Inr (True, c2, wp)
                     \<and> c' = c2\<lparr>connected := True\<rparr>)
            \<and> baud c' = (if baud_rate_initializer config = None then baud config else V ! k)"
      "\<not> connected c' \<longrightarrow> k = length V \<and> c' = cm \<and> wp = wm"
      "bauds_initialized (trace wp) = bauds_initialized (trace w)
           @ (if baud_rate_initializer config = None then []
              else take (if connected c' then Suc k else k) V)"
      "\<forall>req. request_format (enter_command_mode_command (platform config)) = Some req
            \<longrightarrow> written (trace wp) = written (trace w)
                  @ (if write_function config = None then []
                     else concat (replicate (if connected c' then Suc k else k)
                                    (string_of req)))"
    by blast
  show "\<exists>k cm wm. k \<le> length V
      \<and> failed_probes config w (take k V) = Some (cm, wm)
      \<and> ok = connected c'
      \<and> c' = config\<lparr>baud := baud c', connected := ok\<rparr>
      \<and> (ok \<longrightarrow> k < length V
            \<and> (\<exists>c2 w2. probe_once cm wm (V ! k) = Inr (True, c2, w2)
                     \<and> c' = c2\<lparr>connected := True\<rparr>
                     \<and> transport (trace w') = transport (trace w2))
            \<and> baud c' = (if baud_rate_initializer config = None then baud config else V ! k))
      \<and> (\<not> ok \<longrightarrow> k = length V \<and> c' = cm \<and> transport (trace w') = transport (trace wm))
      \<and> bauds_initialized (trace w') = bauds_initialized (trace w)
           @ (if baud_rate_initializer config = None then []
              else take (if ok then Suc k else k) V)
      \<and> (\<forall>req. request_format (enter_command_mode_command (platform config)) = Some req
            \<longrightarrow> written (trace w') = written (trace w)
                  @ (if write_function config = None then []
                     else concat (replicate (if ok then Suc k else k) (string_of req))))"
  proof (intro exI [of _ k] exI [of _ cm] exI [of _ wm] conjI)
    show "k \<le> length V" by (rule k(1))
    show "failed_probes config w (take k V) = Some (cm, wm)" by (rule k(2))
    show "ok = connected c'" by (rule ok)
    show "c' = config\<lparr>baud := baud c', connected := ok\<rparr>" using k(3) ok by simp
    show "ok \<longrightarrow> k < length V
            \<and> (\<exists>c2 w2. probe_once cm wm (V ! k) = Inr (True, c2, w2)
                     \<and> c' = c2\<lparr>connected := True\<rparr>
                     \<and> transport (trace w') = transport (trace w2))
            \<and> baud c' = (if baud_rate_initializer config = None then baud config else V ! k)"
      using k(4) ok tr(1) by blast
    show "\<not> ok \<longrightarrow> k = length V \<and> c' = cm \<and> transport (trace w') = transport (trace wm)"
      using k(5) ok tr(1) by blast
    show "bauds_initialized (trace w') = bauds_initialized (trace w)
           @ (if baud_rate_initializer config = None then []
              else take (if ok then Suc k else k) V)"
      using k(6) ok tr(2) by simp
    show "\<forall>req. request_format (enter_command_mode_command (platform config)) = Some req
            \<longrightarrow> written (trace w') = written (trace w)
                  @ (if write_function config = None then []
                     else concat (replicate (if ok then Suc k else k) (string_of req)))"
      using k(7) ok tr(3) by simp
  qed
qed

lemma enter_rn42_all_fail:
  "(case at_commander_enter_command_mode [1200, 9600, 19200]
           (scripted_config (AT_PLATFORM_RN42 100)) (start [67, 77]) of
      Inl f \<Rightarrow> False
    | Inr (ok, c1, w1) \<Rightarrow>
        \<not> ok \<and> \<not> connected c1 \<and> bauds_initialized (trace w1) = [1200, 9600, 19200]
        \<and> written (trace w1) = ''$$$$$$$$$'')"
  by code_simp

theorem enter_command_mode_probes_witness:
  "\<not> connected (scripted_config (AT_PLATFORM_RN42 100))
   \<and> read_function (scripted_config (AT_PLATFORM_RN42 100)) = Some scripted_read
   \<and> issuable (enter_command_mode_command (platform (scripted_config (AT_PLATFORM_RN42 100))))
   \<and> (\<exists>ok c' w'. at_commander_enter_command_mode [1200, 9600, 19200]
          (scripted_config (AT_PLATFORM_RN42 100)) (start []) = Inr (ok, c', w'))
   \<and> (\<exists>c' w' k cm wm.
        at_commander_enter_command_mode [1200, 9600, 19200]
          (scripted_config (AT_PLATFORM_RN42 100)) (start [- 1, - 1, - 1, 67, 77, 68, 13, 10])
          = Inr (True, c', w')
      \<and> connected c' \<and> baud c' = 9600
      \<and> bauds_initialized (trace w') = [1200, 9600]
      \<and> written (trace w') = ''$$$$$$''
      \<and> failed_probes (scripted_config (AT_PLATFORM_RN42 100))
           (start [- 1, - 1, - 1, 67, 77, 68, 13, 10]) (take k [1200, 9600, 19200])
           = Some (cm, wm))
   \<and> (\<exists>c' w' wm.
        at_commander_enter_command_mode [1200, 9600, 19200]
          (scripted_config (AT_PLATFORM_RN42 100)) (start [67, 77]) = Inr (False, c', w')
      \<and> \<not> connected c'
      \<and> bauds_initialized (trace w') = [1200, 9600, 19200]
      \<and> written (trace w') = ''$$$$$$$$$''
      \<and> failed_probes (scripted_config (AT_PLATFORM_RN42 100)) (start [67, 77])
           [1200, 9600, 19200] = Some (c', wm))"
proof -
  let ?V = "[1200, 9600, 19200]" and ?c = "scripted_config (AT_PLATFORM_RN42 100)"
  have nc: "\<not> connected ?c" by (simp add: scripted_config_def)
  have wf: "read_function ?c = Some scripted_read
      \<and> issuable (enter_command_mode_command (platform ?c))"
    by (simp add: scripted_config_def AT_PLATFORM_RN42_def issuable_def literal_def
        string_of_def NUL_def CRLF_def MAX_RESPONSE_LENGTH_def)
  have r: "\<exists>ok c' w'. at_commander_enter_command_mode ?V ?c (start []) = Inr (ok, c', w')"
    by (rule enter_command_mode_probes [OF nc, THEN conjunct1, THEN mp, OF wf])
  from enter_rn42_second_candidate obtain c1 w1 where
    e1: "at_commander_enter_command_mode ?V ?c (start [- 1, - 1, - 1, 67, 77, 68, 13, 10])
           = Inr (True, c1, w1)"
    and r1: "baud c1 = 9600" "bauds_initialized (trace w1) = [1200, 9600]"
      "written (trace w1) = ''$$$$$$''"
    by (auto split: sum.splits)
  from enter_command_mode_probes [OF nc, THEN conjunct2, THEN mp, OF e1] obtain k cm wm where
    "failed_probes ?c (start [- 1, - 1, - 1, 67, 77, 68, 13, 10]) (take k ?V) = Some (cm, wm)"
    "connected c1"
    by blast
  with e1 r1 have a: "\<exists>c' w' k cm wm.
        at_commander_enter_command_mode ?V ?c (start [- 1, - 1, - 1, 67, 77, 68, 13, 10])
          = Inr (True, c', w')
      \<and> connected c' \<and> baud c' = 9600
      \<and> bauds_initialized (trace w') = [1200, 9600]
      \<and> written (trace w') = ''$$$$$$''
      \<and> failed_probes ?c (start [- 1, - 1, - 1, 67, 77, 68, 13, 10]) (take k ?V)
           = Some (cm, wm)"
    by blast
  from enter_rn42_all_fail obtain c2 w2 where
    e2: "at_commander_enter_command_mode ?V ?c (start [67, 77]) = Inr (False, c2, w2)"
    and r2: "\<not> connected c2" "bauds_initialized (trace w2) = [1200, 9600, 19200]"
      "written (trace w2) = ''$$$$$$$$$''"
    by (auto split: sum.splits)
  from enter_command_mode_probes [OF nc, THEN conjunct2, THEN mp, OF e2] obtain wm2 where
    "failed_probes ?c (start [67, 77]) ?V = Some (c2, wm2)"
    by auto
  with e2 r2 have b: "\<exists>c' w' wm.
        at_commander_enter_command_mode ?V ?c (start [67, 77]) = Inr (False, c', w')
      \<and> \<not> connected c'
      \<and> bauds_initialized (trace w') = [1200, 9600, 19200]
      \<and> written (trace w') = ''$$$$$$$$$''
      \<and> failed_probes ?c (start [67, 77]) ?V = Some (c', wm)"
    by blast
  from nc wf r a b show ?thesis by blast
qed

text \<open>
  C1, as stated, fails on the recording of the baud rate: \<open>initialize_baud\<close> writes the
  field \<open>baud\<close> only when there is a baud rate initializer. Without one, a device that
  answers the first probe leaves the session connected with \<open>baud\<close> as it was (here 0, not
  the 1200 that was probed).
\<close>

theorem enter_command_mode_baud_not_recorded:
  "(case at_commander_enter_command_mode [1200, 9600, 19200]
           ((scripted_config (AT_PLATFORM_RN42 100))\<lparr>baud_rate_initializer := None\<rparr>)
           (start [67, 77, 68, 13, 10]) of
      Inl f \<Rightarrow> False
    | Inr (ok, c', w') \<Rightarrow>
        ok \<and> connected c' \<and> baud c' = 0 \<and> baud c' \<noteq> 1200
        \<and> written (trace w') = ''$$$'' \<and> bauds_initialized (trace w') = [])"
  by code_simp

subsection \<open>Setting the baud rate of the device\<close>

lemma enter_command_mode_config:
  assumes "at_commander_enter_command_mode V config w = Inr (ok, c1, w1)"
  shows "c1 = config\<lparr>baud := baud c1, connected := connected c1\<rparr>"
proof (cases "connected config")
  case True
  with assms have "c1 = config" by (simp add: at_commander_enter_command_mode_def)
  then show ?thesis by simp
next
  case False
  from enter_command_mode_not_connected [OF False assms] obtain wp where
    "probe_bauds config w V = Inr (c1, wp)" by blast
  from probe_bauds_not_connected [OF False this] show ?thesis by blast
qed

lemma enter_command_mode_device_baud:
  assumes "at_commander_enter_command_mode V config w = Inr (ok, c1, w1)"
  shows "device_baud c1 = device_baud config"
  by (subst enter_command_mode_config [OF assms]) simp

text \<open>
  What \<open>at_commander_set_baud\<close> does once it has come to its request: command mode is
  entered (just now or before the call), the baud value is mapped and formatted. The
  entry has left \<open>device_baud\<close> as it was. If the request fails, the call returns false
  with the session of the entry, so with \<open>device_baud\<close> unchanged, and does nothing more
  on the transport. If the request succeeds, \<open>device_baud\<close> is set to the baud asked for,
  \<open>at_commander_store_settings\<close> is called on that session, and the call returns true
  whatever the boolean that function returns. The request is only reached on a platform
  whose formatted set-baud request fits the five bytes of \<^verbatim>\<open>command\<close>, such as
  \<open>xbee_short_set_baud\<close>.
\<close>

lemma set_baud_round_trip:
  assumes entered: "at_commander_enter_command_mode V config w = Inr (True, c1, w1)"
    and mapped: "select_baud_rate_mapper c1 b = Inr v"
    and formatted:
      "sprintf 5 (request_format (set_baud_rate_command (platform c1))) v = Inr command"
    and round_trip:
      "command_request c1 w1 (Some command)
         (expected_response (set_baud_rate_command (platform c1))) = Inr (ok, w2)"
  shows "device_baud c1 = device_baud config
     \<and> (\<not> ok \<longrightarrow>
          (\<exists>w3. at_commander_set_baud V config w b = Inr (False, c1, w3)
              \<and> transport (trace w3) = transport (trace w2)))
     \<and> (ok \<longrightarrow>
          (case at_commander_store_settings (c1\<lparr>device_baud := b\<rparr>)
                  (debug c1 w2 ''Changed device baud rate to %d'' [IntArg b]) of
             Inl f \<Rightarrow> at_commander_set_baud V config w b = Inl f
           | Inr (stored, w4) \<Rightarrow>
               at_commander_set_baud V config w b = Inr (True, c1\<lparr>device_baud := b\<rparr>, w4)))"
proof (intro conjI impI)
  show "device_baud c1 = device_baud config"
    using entered by (rule enter_command_mode_device_baud)
next
  assume "\<not> ok"
  with assms show "\<exists>w3. at_commander_set_baud V config w b = Inr (False, c1, w3)
              \<and> transport (trace w3) = transport (trace w2)"
    by (simp add: at_commander_set_baud_def)
next
  assume ok
  with assms show "case at_commander_store_settings (c1\<lparr>device_baud := b\<rparr>)
                  (debug c1 w2 ''Changed device baud rate to %d'' [IntArg b]) of
             Inl f \<Rightarrow> at_commander_set_baud V config w b = Inl f
           | Inr (stored, w4) \<Rightarrow>
               at_commander_set_baud V config w b = Inr (True, c1\<lparr>device_baud := b\<rparr>, w4)"
    by (simp add: at_commander_set_baud_def Let_def split: sum.splits)
qed

lemma set_baud_stepsD:
  assumes "set_baud_steps V config w b r"
  shows "\<exists>c1 w1 v command w2.
      at_commander_enter_command_mode V config w = Inr (True, c1, w1)
    \<and> select_baud_rate_mapper c1 b = Inr v
    \<and> sprintf 5 (request_format (set_baud_rate_command (platform c1))) v = Inr command
    \<and> command_request c1 w1 (Some command)
         (expected_response (set_baud_rate_command (platform c1))) = Inr (r, w2)"
proof -
  obtain ok c1 w1 where
    e: "at_commander_enter_command_mode V config w = Inr (ok, c1, w1)"
    using assms
    by (cases "at_commander_enter_command_mode V config w") (auto simp: set_baud_steps_def)
  with assms have ok: ok and
    s2: "case select_baud_rate_mapper c1 b of
           Inl f \<Rightarrow> False
         | Inr v \<Rightarrow>
            (case sprintf 5 (request_format (set_baud_rate_command (platform c1))) v of
               Inl f \<Rightarrow> False
             | Inr command \<Rightarrow>
                (case command_request c1 w1 (Some command)
                        (expected_response (set_baud_rate_command (platform c1))) of
                   Inl f \<Rightarrow> False
                 | Inr (ok2, w2) \<Rightarrow> ok2 = r))"
    by (simp_all add: set_baud_steps_def)
  obtain v where m: "select_baud_rate_mapper c1 b = Inr v"
    using s2 by (cases "select_baud_rate_mapper c1 b") auto
  with s2 have
    s3: "case sprintf 5 (request_format (set_baud_rate_command (platform c1))) v of
               Inl f \<Rightarrow> False
             | Inr command \<Rightarrow>
                (case command_request c1 w1 (Some command)
                        (expected_response (set_baud_rate_command (platform c1))) of
                   Inl f \<Rightarrow> False
                 | Inr (ok2, w2) \<Rightarrow> ok2 = r)"
    by simp
  obtain command where
    f: "sprintf 5 (request_format (set_baud_rate_command (platform c1))) v = Inr command"
    using s3
    by (cases "sprintf 5 (request_format (set_baud_rate_command (platform c1))) v") auto
  with s3 have
    s4: "case command_request c1 w1 (Some command)
                        (expected_response (set_baud_rate_command (platform c1))) of
                   Inl f \<Rightarrow> False
                 | Inr (ok2, w2) \<Rightarrow> ok2 = r"
    by simp
  obtain ok2 w2 where
    c: "command_request c1 w1 (Some command)
          (expected_response (set_baud_rate_command (platform c1))) = Inr (ok2, w2)"
    using s4
    by (cases "command_request c1 w1 (Some command)
          (expected_response (set_baud_rate_command (platform c1)))") auto
  with s4 have "ok2 = r" by simp
  with e ok m f c show ?thesis
    by (intro exI [of _ c1] exI [of _ w1] exI [of _ v] exI [of _ command] exI [of _ w2]) simp
qed

lemma set_baud_steps_ok:
  "set_baud_steps [9600] xbee_short_set_baud (start [79, 75, 75]) 115200 True"
  by code_simp

lemma set_baud_steps_fail:
  "set_baud_steps [9600] xbee_short_set_baud (start [79, 75, 88]) 115200 False"
  by code_simp

lemma set_baud_run_ok:
  "(case at_commander_set_baud [9600] xbee_short_set_baud (start [79, 75, 75]) 115200 of
      Inl f \<Rightarrow> False
    | Inr (ok, c', w') \<Rightarrow>
        ok \<and> device_baud c' = 115200 \<and> written (trace w') = ''+++B7ATWR'' @ CRLF)"
  by code_simp

lemma set_baud_run_fail:
  "(case at_commander_set_baud [9600] xbee_short_set_baud (start [79, 75, 88]) 115200 of
      Inl f \<Rightarrow> False
    | Inr (ok, c', w') \<Rightarrow>
        \<not> ok \<and> device_baud c' = 0 \<and> written (trace w') = ''+++B7'')"
  by code_simp

lemma set_baud_round_trip_example:
  "(\<exists>c1 w1 v command w2 c' w'.
      at_commander_enter_command_mode [9600] xbee_short_set_baud (start [79, 75, 75])
        = Inr (True, c1, w1)
    \<and> select_baud_rate_mapper c1 115200 = Inr v
    \<and> sprintf 5 (request_format (set_baud_rate_command (platform c1))) v = Inr command
    \<and> command_request c1 w1 (Some command)
         (expected_response (set_baud_rate_command (platform c1))) = Inr (True, w2)
    \<and> at_commander_set_baud [9600] xbee_short_set_baud (start [79, 75, 75]) 115200
        = Inr (True, c1\<lparr>device_baud := 115200\<rparr>, w')
    \<and> written (trace w') = ''+++B7ATWR'' @ CRLF)
   \<and> (\<exists>c1 w1 v command w2 w'.
      at_commander_enter_command_mode [9600] xbee_short_set_baud (start [79, 75, 88])
        = Inr (True, c1, w1)
    \<and> select_baud_rate_mapper c1 115200 = Inr v
    \<and> sprintf 5 (request_format (set_baud_rate_command (platform c1))) v = Inr command
    \<and> command_request c1 w1 (Some command)
         (expected_response (set_baud_rate_command (platform c1))) = Inr (False, w2)
    \<and> at_commander_set_baud [9600] xbee_short_set_baud (start [79, 75, 88]) 115200
        = Inr (False, c1, w')
    \<and> device_baud c1 = device_baud xbee_short_set_baud)"
proof -
  let ?c = xbee_short_set_baud
  from set_baud_stepsD [OF set_baud_steps_ok] obtain c1 w1 v command w2 where
    s: "at_commander_enter_command_mode [9600] ?c (start [79, 75, 75]) = Inr (True, c1, w1)"
      "select_baud_rate_mapper c1 115200 = Inr v"
      "sprintf 5 (request_format (set_baud_rate_command (platform c1))) v = Inr command"
      "command_request c1 w1 (Some command)
         (expected_response (set_baud_rate_command (platform c1))) = Inr (True, w2)"
    by blast
  from set_baud_run_ok obtain c' w' where
    r: "at_commander_set_baud [9600] ?c (start [79, 75, 75]) 115200 = Inr (True, c', w')"
      "written (trace w') = ''+++B7ATWR'' @ CRLF"
    by (auto split: sum.splits)
  from set_baud_round_trip [OF s] r(1) have "c' = c1\<lparr>device_baud := 115200\<rparr>"
    by (auto split: sum.splits)
  with s r have a: "\<exists>c1 w1 v command w2 c' w'.
      at_commander_enter_command_mode [9600] ?c (start [79, 75, 75]) = Inr (True, c1, w1)
    \<and> select_baud_rate_mapper c1 115200 = Inr v
    \<and> sprintf 5 (request_format (set_baud_rate_command (platform c1))) v = Inr command
    \<and> command_request c1 w1 (Some command)
         (expected_response (set_baud_rate_command (platform c1))) = Inr (True, w2)
    \<and> at_commander_set_baud [9600] ?c (start [79, 75, 75]) 115200
        = Inr (True, c1\<lparr>device_baud := 115200\<rparr>, w')
    \<and> written (trace w') = ''+++B7ATWR'' @ CRLF"
    by blast
  from set_baud_stepsD [OF set_baud_steps_fail] obtain d1 x1 u cmd x2 where
    t: "at_commander_enter_command_mode [9600] ?c (start [79, 75, 88]) = Inr (True, d1, x1)"
      "select_baud_rate_mapper d1 115200 = Inr u"
      "sprintf 5 (request_format (set_baud_rate_command (platform d1))) u = Inr cmd"
      "command_request d1 x1 (Some cmd)
         (expected_response (set_baud_rate_command (platform d1))) = Inr (False, x2)"
    by blast
  from set_baud_round_trip [OF t] obtain x3 where
    "device_baud d1 = device_baud ?c"
    "at_commander_set_baud [9600] ?c (start [79, 75, 88]) 115200 = Inr (False, d1, x3)"
    by auto
  with t have b: "\<exists>c1 w1 v command w2 w'.
      at_commander_enter_command_mode [9600] ?c (start [79, 75, 88]) = Inr (True, c1, w1)
    \<and> select_baud_rate_mapper c1 115200 = Inr v
    \<and> sprintf 5 (request_format (set_baud_rate_command (platform c1))) v = Inr command
    \<and> command_request c1 w1 (Some command)
         (expected_response (set_baud_rate_command (platform c1))) = Inr (False, w2)
    \<and> at_commander_set_baud [9600] ?c (start [79, 75, 88]) 115200 = Inr (False, c1, w')
    \<and> device_baud c1 = device_baud ?c"
    by blast
  from a b show ?thesis by blast
qed







end
